theory Spec2Isabelle
  imports Main "HOL-Library.Sublist"
begin

section \<open>JavaScript strings and values\<close>

text \<open>
  A JavaScript string is a sequence of UTF-16 code units. Code units are modelled as
  natural numbers, so the character classes of the regular expressions of the source
  (\<open>\s\<close>, \<open>\w\<close>, \<open>.\<close>) can be written out in full. String literals of the source
  that are ASCII are written \<open>js ''...''\<close>; the others are written as their code units.
\<close>

type_synonym jsstring = "nat list"

definition js :: "string \<Rightarrow> jsstring" where
  "js s = map of_char s"

text \<open>
  The values a tool argument can hold (the source types them \<open>unknown\<close> and casts).
  \<open>JObj\<close> stands for any array or object. Numbers are integers here: the code only tests
  them for truthiness and passes them on.
\<close>

datatype jsval = JUndefined | JNull | JBool bool | JNum int | JStr jsstring | JObj

fun truthy :: "jsval \<Rightarrow> bool" where
  "truthy JUndefined = False"
| "truthy JNull = False"
| "truthy (JBool b) = b"
| "truthy (JNum n) = (n \<noteq> 0)"
| "truthy (JStr s) = (s \<noteq> [])"
| "truthy JObj = True"

text \<open>\<open>Record<string, unknown>\<close>: a missing key reads as \<open>undefined\<close>.\<close>

type_synonym args = "jsstring \<rightharpoonup> jsval"

definition arg :: "args \<Rightarrow> jsstring \<Rightarrow> jsval" where
  "arg a k = (case a k of None \<Rightarrow> JUndefined | Some v \<Rightarrow> v)"

text \<open>\<open>s.startsWith(p)\<close>, \<open>s.endsWith(p)\<close>, \<open>s.includes(d)\<close>.\<close>

definition startsWith :: "'a list \<Rightarrow> 'a list \<Rightarrow> bool" where
  "startsWith s p = prefix p s"

definition endsWith :: "'a list \<Rightarrow> 'a list \<Rightarrow> bool" where
  "endsWith s p = suffix p s"

primrec js_includes :: "'a list \<Rightarrow> 'a list \<Rightarrow> bool" where
  "js_includes [] d = (d = [])"
| "js_includes (c # s) d = (prefix d (c # s) \<or> js_includes s d)"

text \<open>
  The class \<open>\s\<close> of ECMAScript: TAB, LF, VT, FF, CR, SPACE, U+00A0, U+1680,
  U+2000 to U+200A, U+2028, U+2029, U+202F, U+205F, U+3000, U+FEFF.
  \<open>String.prototype.trim\<close> strips exactly this class at both ends.
\<close>

definition isSpace :: "nat \<Rightarrow> bool" where
  "isSpace c = (c = 9 \<or> c = 10 \<or> c = 11 \<or> c = 12 \<or> c = 13 \<or> c = 32 \<or> c = 160
     \<or> c = 5760 \<or> (8192 \<le> c \<and> c \<le> 8202) \<or> c = 8232 \<or> c = 8233 \<or> c = 8239
     \<or> c = 8287 \<or> c = 12288 \<or> c = 65279)"

definition trim :: "jsstring \<Rightarrow> jsstring" where
  "trim s = rev (dropWhile isSpace (rev (dropWhile isSpace s)))"



text \<open>
  Case folding of one code unit on the ASCII letters. For a pattern character that is
  ASCII, the \<open>i\<close> flag of a non-Unicode regular expression matches exactly the code
  units with the same fold (a code unit from 128 on never folds into ASCII), and
  \<open>toLowerCase\<close> on a string of \<open>\w\<close> characters is \<open>map toLowerAscii\<close>.
\<close>

definition toUpperAscii :: "nat \<Rightarrow> nat" where
  "toUpperAscii c = (if 97 \<le> c \<and> c \<le> 122 then c - 32 else c)"


text \<open>Thrown values: all the code reads of one is its \<open>message\<close>.\<close>

datatype exn = Error jsstring | TypeError jsstring

fun exn_message :: "exn \<Rightarrow> jsstring" where
  "exn_message (Error m) = m"
| "exn_message (TypeError m) = m"

section \<open>Regular expressions\<close>

text \<open>
  The patterns of the source use literals, classes, concatenation, alternation and
  the quantifiers \<open>*\<close>, \<open>+\<close>, \<open>?\<close> only (no anchors, groups are not read back), and they
  carry no \<open>g\<close> flag, so \<open>pattern.test(s)\<close> is stateless and true exactly when some
  substring of \<open>s\<close> is in the language of the pattern. Membership is decided by
  derivatives.
\<close>

datatype rx = Nul | Eps | Cls "nat \<Rightarrow> bool" | Cat rx rx | Alt rx rx | Star rx

fun nullable :: "rx \<Rightarrow> bool" where
  "nullable Nul = False"
| "nullable Eps = True"
| "nullable (Cls p) = False"
| "nullable (Cat r s) = (nullable r \<and> nullable s)"
| "nullable (Alt r s) = (nullable r \<or> nullable s)"
| "nullable (Star r) = True"

fun deriv :: "nat \<Rightarrow> rx \<Rightarrow> rx" where
  "deriv c Nul = Nul"
| "deriv c Eps = Nul"
| "deriv c (Cls p) = (if p c then Eps else Nul)"
| "deriv c (Cat r s) =
     (if nullable r then Alt (Cat (deriv c r) s) (deriv c s) else Cat (deriv c r) s)"
| "deriv c (Alt r s) = Alt (deriv c r) (deriv c s)"
| "deriv c (Star r) = Cat (deriv c r) (Star r)"

definition rx_matches :: "rx \<Rightarrow> jsstring \<Rightarrow> bool" where
  "rx_matches r s = nullable (foldl (\<lambda>r c. deriv c r) r s)"

definition rx_any :: rx where
  "rx_any = Star (Cls (\<lambda>_. True))"

definition rx_test :: "rx \<Rightarrow> jsstring \<Rightarrow> bool" where
  "rx_test r s = rx_matches (Cat rx_any (Cat r rx_any)) s"

definition rx_plus :: "rx \<Rightarrow> rx" where
  "rx_plus r = Cat r (Star r)"

definition rx_opt :: "rx \<Rightarrow> rx" where
  "rx_opt r = Alt r Eps"

text \<open>One pattern character under the \<open>i\<close> flag, and a literal under the \<open>i\<close> flag.\<close>

definition ci :: "char \<Rightarrow> rx" where
  "ci ch = Cls (\<lambda>c. toUpperAscii c = toUpperAscii (of_char ch))"

definition lit_i :: "string \<Rightarrow> rx" where
  "lit_i s = foldr (\<lambda>ch r. Cat (ci ch) r) s Eps"

definition ws :: rx where
  "ws = Cls isSpace"

section \<open>Configuration (config.ts)\<close>

record project_config =
  allow_commands :: "jsstring list option"
  allow_write_paths :: "jsstring list option"
  deny_paths :: "jsstring list option"

text \<open>\<open>AppConfig\<close>; the \<open>llm\<close> field is left out, nothing below reads it.\<close>

record app_config =
  workingDirectory :: jsstring
  autoConfirm :: bool
  project :: project_config
  maxToolLoops :: nat
  debug :: bool

text \<open>\<open>DEFAULT_PROJECT_CONFIG\<close>.\<close>

definition DEFAULT_PROJECT_CONFIG :: project_config where
  "DEFAULT_PROJECT_CONFIG =
     \<lparr>allow_commands = Some [], allow_write_paths = Some [],
      deny_paths = Some [js ''node_modules'', js ''.git'', js ''.env'', js ''.env.local'']\<rparr>"

text \<open>
  \<open>createAppConfig\<close>, with the working directory and the loaded project configuration
  as arguments (the source reads them from the process and the file system).
\<close>

definition createAppConfig :: "jsstring \<Rightarrow> project_config \<Rightarrow> bool option \<Rightarrow> bool option \<Rightarrow> app_config" where
  "createAppConfig wd projectConfig optAutoConfirm optDebug =
     \<lparr>workingDirectory = wd,
      autoConfirm = (case optAutoConfirm of Some True \<Rightarrow> True | _ \<Rightarrow> False),
      project = projectConfig,
      maxToolLoops = 8,
      debug = (case optDebug of Some True \<Rightarrow> True | _ \<Rightarrow> False)\<rparr>"

text \<open>\<open>x || []\<close> on an optional array.\<close>

definition orEmpty :: "'a list option \<Rightarrow> 'a list" where
  "orEmpty x = (case x of None \<Rightarrow> [] | Some l \<Rightarrow> l)"

definition isCommandAllowed :: "jsstring \<Rightarrow> app_config \<Rightarrow> bool" where
  "isCommandAllowed command config =
     (let allowedCommands = orEmpty (allow_commands (project config)) in
      if command \<in> set allowedCommands then True
      else list_ex (\<lambda>allowed. endsWith allowed (js ''*'') \<and> startsWith command (butlast allowed))
             allowedCommands)"

text \<open>
  \<open>isPathAllowedForWrite\<close>. \<open>path.normalize\<close> of Node is the argument \<open>normalizeFn\<close>.
\<close>

definition isPathAllowedForWrite :: "(jsstring \<Rightarrow> jsstring) \<Rightarrow> jsstring \<Rightarrow> app_config \<Rightarrow> bool" where
  "isPathAllowedForWrite normalizeFn filePath config =
     (let normalizedPath = normalizeFn filePath;
          denyPaths = orEmpty (deny_paths (project config)) in
      if list_ex (\<lambda>denied. js_includes normalizedPath denied) denyPaths then False
      else
        (let allowPaths = orEmpty (allow_write_paths (project config)) in
         if length allowPaths > 0
         then list_ex (\<lambda>allowed. startsWith normalizedPath allowed) allowPaths
         else True))"

section \<open>Tool results, effects and the execution context\<close>

record run_command_result =
  stdout :: jsstring
  stderr :: jsstring
  code :: int

text \<open>
  \<open>ToolResult.data\<close> is \<open>unknown\<close> in the source; the values the modelled tools put
  there are \<open>RunCommandResult\<close> and \<open>DeleteFileResult\<close> (always \<open>{success: true}\<close>).
\<close>

datatype tool_data = RunCommandData run_command_result | DeleteFileData | OtherData jsval

record tool_result =
  success :: bool
  data :: "tool_data option"
  error :: "jsstring option"

definition failed :: "jsstring \<Rightarrow> tool_result" where
  "failed e = \<lparr>success = False, data = None, error = Some e\<rparr>"

definition succeeded :: "tool_data \<Rightarrow> tool_result" where
  "succeeded d = \<lparr>success = True, data = Some d, error = None\<rparr>"

text \<open>
  What a tool does to the world is recorded as a trace of events, oldest first:
  the interactive prompt \<open>confirm(message)\<close> of the user interface, the start of a
  subprocess (\<open>spawn\<close> with command and working directory, and the timer armed with the
  timeout), the signal sent by \<open>proc.kill('SIGKILL')\<close>, and the three deleting calls
  \<open>fs.rmSync(p, {recursive, force})\<close>, \<open>fs.rmdirSync(p)\<close>, \<open>fs.unlinkSync(p)\<close>; then
  the call of a builtin tool's \<open>execute\<close> and of \<open>mcpManager.callTool\<close> by a dispatcher
  (each with the tool's name), and the warning \<open>Agent.run\<close> prints when the loop count
  has reached the cap.
\<close>

datatype event =
    UiConfirm jsstring
  | Spawn jsstring jsstring jsval
  | SigKill
  | FsRm jsstring
  | FsRmdir jsstring
  | FsUnlink jsstring
  | ToolExecute jsstring
  | McpCallTool jsstring
  | LoopLimitWarning nat

type_synonym trace = "event list"

fun isDeletion :: "event \<Rightarrow> bool" where
  "isDeletion (FsRm p) = True"
| "isDeletion (FsRmdir p) = True"
| "isDeletion (FsUnlink p) = True"
| "isDeletion e = False"

fun isSpawn :: "event \<Rightarrow> bool" where
  "isSpawn (Spawn c d t) = True"
| "isSpawn e = False"

text \<open>What the subprocess of \<open>executeCommand\<close> emits, in the order the handlers see it.\<close>

datatype proc_event =
    StdoutData jsstring
  | StderrData jsstring
  | TimerFired
  | Close "int option"
  | ProcError exn

text \<open>
  What the world answers, given everything that happened before: the user at the
  prompt, \<open>fs.existsSync\<close>, \<open>fs.statSync(p).isDirectory()\<close> (which may throw), whether a
  deleting call throws, the events of a started subprocess, and the functions
  \<open>path.normalize\<close> and \<open>path.resolve\<close> of Node together with the message of the
  \<open>TypeError\<close> that \<open>path.resolve\<close> throws on an argument that is not a string.
\<close>

record world =
  confirm :: "trace \<Rightarrow> jsstring \<Rightarrow> bool"
  existsSync :: "trace \<Rightarrow> jsstring \<Rightarrow> bool"
  statIsDirectory :: "trace \<Rightarrow> jsstring \<Rightarrow> exn + bool"
  fsThrows :: "trace \<Rightarrow> event \<Rightarrow> exn option"
  subprocess :: "trace \<Rightarrow> jsstring \<Rightarrow> jsstring \<Rightarrow> jsval \<Rightarrow> proc_event list"
  path_normalize :: "jsstring \<Rightarrow> jsstring"
  path_resolve :: "jsstring \<Rightarrow> jsstring \<Rightarrow> jsstring"
  resolveTypeError :: "jsval \<Rightarrow> jsstring"

text \<open>\<open>ToolContext\<close>: \<open>confirmAction(message, riskLevel)\<close> is the injected callback.\<close>

record tool_context =
  ctx_workingDirectory :: jsstring
  ctx_config :: app_config
  ctx_autoConfirm :: bool
  confirmAction :: "jsstring \<Rightarrow> jsstring \<Rightarrow> trace \<Rightarrow> bool \<times> trace"

text \<open>\<open>Agent.createToolContext\<close> (agent/index.ts).\<close>

definition createToolContext :: "world \<Rightarrow> app_config \<Rightarrow> tool_context" where
  "createToolContext w appConfig =
     \<lparr>ctx_workingDirectory = workingDirectory appConfig,
      ctx_config = appConfig,
      ctx_autoConfirm = autoConfirm appConfig,
      confirmAction = (\<lambda>message riskLevel tr.
         if autoConfirm appConfig \<and> riskLevel \<noteq> js ''high'' then (True, tr)
         else (confirm w tr message, tr @ [UiConfirm message]))\<rparr>"

section \<open>run_command (tools/run_command.ts)\<close>

definition DEFAULT_TIMEOUT :: int where
  "DEFAULT_TIMEOUT = 30000"

text \<open>
  \<open>DANGEROUS_PATTERNS\<close>, in the order of the source:
  \<^verbatim>\<open>/rm\s+(-rf?|--recursive)/i\<close>, \<^verbatim>\<open>/sudo/i\<close>, \<^verbatim>\<open>/chmod\s+777/i\<close>, \<^verbatim>\<open>/>\s*\/dev\//i\<close>,
  \<^verbatim>\<open>/mkfs/i\<close>, \<^verbatim>\<open>/dd\s+if=/i\<close>, \<^verbatim>\<open>/:\(\)\s*{\s*:\|:\s*&\s*}\s*;/i\<close>.
\<close>

definition DANGEROUS_PATTERNS :: "rx list" where
  "DANGEROUS_PATTERNS =
     [Cat (lit_i ''rm'') (Cat (rx_plus ws)
        (Alt (Cat (lit_i ''-r'') (rx_opt (ci CHR ''f''))) (lit_i ''--recursive''))),
      lit_i ''sudo'',
      Cat (lit_i ''chmod'') (Cat (rx_plus ws) (lit_i ''777'')),
      Cat (lit_i ''>'') (Cat (Star ws) (lit_i ''/dev/'')),
      lit_i ''mkfs'',
      Cat (lit_i ''dd'') (Cat (rx_plus ws) (lit_i ''if='')),
      Cat (lit_i '':()'') (Cat (Star ws) (Cat (lit_i ''{'') (Cat (Star ws)
        (Cat (lit_i '':|:'') (Cat (Star ws) (Cat (lit_i ''&'') (Cat (Star ws)
        (Cat (lit_i ''}'') (Cat (Star ws) (lit_i '';''))))))))))]"

definition isDangerousCommand :: "jsstring \<Rightarrow> bool" where
  "isDangerousCommand command = list_ex (\<lambda>pattern. rx_test pattern command) DANGEROUS_PATTERNS"

text \<open>
  \<open>executeCommand\<close>: the state the handlers of the promise share. \<open>timer\<close> is true
  while the timeout is armed, \<open>settled\<close> is the first \<open>resolve\<close> or \<open>reject\<close> (a promise
  settles once), \<open>kills\<close> counts the \<open>SIGKILL\<close> signals sent.
\<close>

record exec_state =
  es_stdout :: jsstring
  es_stderr :: jsstring
  killed :: bool
  timer :: bool
  settled :: "(exn + run_command_result) option"
  kills :: nat

definition settle :: "exn + run_command_result \<Rightarrow> exec_state \<Rightarrow> exec_state" where
  "settle r st = (case settled st of None \<Rightarrow> st\<lparr>settled := Some r\<rparr> | Some _ \<Rightarrow> st)"

text \<open>The note of the source: a line feed, then U+005B U+547D U+4EE4 U+6267 U+884C
  U+8D85 U+65F6 U+FF0C U+5DF2 U+7EC8 U+6B62 U+005D.\<close>

definition timeoutNote :: jsstring where
  "timeoutNote = [10, 91, 21629, 20196, 25191, 34892, 36229, 26102, 65292, 24050, 32456, 27490, 93]"

fun exec_step :: "exec_state \<Rightarrow> proc_event \<Rightarrow> exec_state" where
  "exec_step st (StdoutData d) = st\<lparr>es_stdout := es_stdout st @ d\<rparr>"
| "exec_step st (StderrData d) = st\<lparr>es_stderr := es_stderr st @ d\<rparr>"
| "exec_step st TimerFired =
     (if timer st then st\<lparr>killed := True, timer := False, kills := kills st + 1\<rparr> else st)"
| "exec_step st (Close c) =
     settle
       (if killed st
        then Inr \<lparr>stdout = es_stdout st, stderr = es_stderr st @ timeoutNote, code = - 1\<rparr>
        else Inr \<lparr>stdout = es_stdout st, stderr = es_stderr st,
                  code = (case c of None \<Rightarrow> 0 | Some n \<Rightarrow> n)\<rparr>)
       (st\<lparr>timer := False\<rparr>)"
| "exec_step st (ProcError err) = settle (Inl err) (st\<lparr>timer := False\<rparr>)"

definition exec_init :: exec_state where
  "exec_init = \<lparr>es_stdout = [], es_stderr = [], killed = False, timer = True,
                 settled = None, kills = 0\<rparr>"

text \<open>
  \<open>executeCommand\<close> on the events of the subprocess: how the promise settles
  (\<open>None\<close>: it never does), and how many signals were sent.
\<close>

definition executeCommand :: "proc_event list \<Rightarrow> (exn + run_command_result) option \<times> nat" where
  "executeCommand evs = (let st = foldl exec_step exec_init evs in (settled st, kills st))"

text \<open>
  The literals of \<open>runCommandTool.execute\<close>: the error texts \<open>mustProvideCommand\<close>
  (U+5FC5 U+987B U+63D0 U+4F9B U+547D U+4EE4), \<open>userCancelledCommand\<close> and
  \<open>commandFailed\<close>, the prefix for a dangerous command and the prompt text.
\<close>

definition mustProvideCommand :: jsstring where
  "mustProvideCommand = [24517, 39035, 25552, 20379, 21629, 20196]"

definition userCancelledCommand :: jsstring where
  "userCancelledCommand = [29992, 25143, 21462, 28040, 21629, 20196, 25191, 34892]"

definition commandFailed :: jsstring where
  "commandFailed = [21629, 20196, 25191, 34892, 22833, 36133, 58, 32]"

definition dangerPrefix :: jsstring where
  "dangerPrefix = [9888, 65039, 32, 32, 39640, 21361, 21629, 20196, 32, 45, 32]"

definition executeCommandPrompt :: jsstring where
  "executeCommandPrompt = [25191, 34892, 21629, 20196, 58, 32]"

text \<open>
  \<open>runCommandTool.execute\<close>, in its three parts. First the decision whether to ask
  (\<open>needConfirm\<close>) and the call of the callback: the pair returned is the answer
  (\<open>True\<close> when nothing was asked) and the trace after it.
\<close>

definition runCommand_confirm :: "jsstring \<Rightarrow> tool_context \<Rightarrow> trace \<Rightarrow> bool \<times> trace" where
  "runCommand_confirm command context tr =
     (let dangerous = isDangerousCommand command;
          inWhitelist = isCommandAllowed command (ctx_config context);
          needConfirm0 = \<not> ctx_autoConfirm context;
          needConfirm1 = (if inWhitelist \<and> \<not> dangerous then False else needConfirm0);
          needConfirm = (if dangerous then True else needConfirm1)
      in
      if needConfirm
      then
        (let riskLevel = (if dangerous then js ''high'' else js ''medium'');
             pfx = (if dangerous then dangerPrefix else [])
         in confirmAction context (pfx @ executeCommandPrompt @ command) riskLevel tr)
      else (True, tr))"

text \<open>
  Then the run itself: \<open>await executeCommand(...)\<close> wrapped as a successful result, a
  rejection caught by the \<open>catch\<close> of \<open>execute\<close>. The result is \<open>None\<close> when the promise
  of \<open>executeCommand\<close> never settles.
\<close>

definition runCommand_run :: "world \<Rightarrow> jsstring \<Rightarrow> tool_context \<Rightarrow> jsval \<Rightarrow> trace \<Rightarrow> tool_result option \<times> trace" where
  "runCommand_run w command context timeout tr =
     (let (outcome, n) =
            executeCommand (subprocess w tr command (ctx_workingDirectory context) timeout);
          tr2 = tr @ [Spawn command (ctx_workingDirectory context) timeout] @ replicate n SigKill
      in case outcome of
           None \<Rightarrow> (None, tr2)
         | Some (Inl err) \<Rightarrow> (Some (failed (commandFailed @ exn_message err)), tr2)
         | Some (Inr result) \<Rightarrow> (Some (succeeded (RunCommandData result)), tr2))"

text \<open>
  The whole of \<open>execute\<close>. A \<open>command\<close> that is truthy and not a string has no \<open>trim\<close>
  method: the \<open>TypeError\<close> is caught by the \<open>catch\<close> of \<open>execute\<close>.
\<close>

definition runCommand_execute :: "world \<Rightarrow> args \<Rightarrow> tool_context \<Rightarrow> trace \<Rightarrow> tool_result option \<times> trace" where
  "runCommand_execute w a context tr =
     (let timeout = (if truthy (arg a (js ''timeout'')) then arg a (js ''timeout'')
                     else JNum DEFAULT_TIMEOUT) in
      if \<not> truthy (arg a (js ''command'')) then (Some (failed mustProvideCommand), tr)
      else case arg a (js ''command'') of
        JStr command \<Rightarrow>
          if trim command = [] then (Some (failed mustProvideCommand), tr)
          else
            (case runCommand_confirm command context tr of
               (confirmed, tr1) \<Rightarrow>
                 if \<not> confirmed then (Some (failed userCancelledCommand), tr1)
                 else runCommand_run w command context timeout tr1)
      | _ \<Rightarrow> (Some (failed (commandFailed @ js ''command.trim is not a function'')), tr))"

text \<open>
  A pattern is \<open>inked\<close> when every string it matches holds a code unit that is not
  white space (a sufficient syntactic condition, used in the proofs only).
\<close>

fun inked :: "rx \<Rightarrow> bool" where
  "inked Nul = True"
| "inked Eps = False"
| "inked (Cls p) = (\<forall>c. isSpace c \<longrightarrow> \<not> p c)"
| "inked (Cat r s) = (inked r \<or> inked s)"
| "inked (Alt r s) = (inked r \<and> inked s)"
| "inked (Star r) = False"

text \<open>The output a list of subprocess events carries on each stream.\<close>

fun isData :: "proc_event \<Rightarrow> bool" where
  "isData (StdoutData d) = True"
| "isData (StderrData d) = True"
| "isData e = False"

text \<open>
  The events that settle nothing: output, and the timer (the callback of \<open>setTimeout\<close>
  runs once; \<open>close\<close> and \<open>error\<close> are the events whose handlers call \<open>resolve\<close> or
  \<open>reject\<close>).
\<close>

fun isQuiet :: "proc_event \<Rightarrow> bool" where
  "isQuiet (Close c) = False"
| "isQuiet (ProcError err) = False"
| "isQuiet e = True"

fun stdoutOf :: "proc_event list \<Rightarrow> jsstring" where
  "stdoutOf [] = []"
| "stdoutOf (StdoutData d # es) = d @ stdoutOf es"
| "stdoutOf (e # es) = stdoutOf es"

fun stderrOf :: "proc_event list \<Rightarrow> jsstring" where
  "stderrOf [] = []"
| "stderrOf (StderrData d # es) = d @ stderrOf es"
| "stderrOf (e # es) = stderrOf es"

section \<open>delete_file (tools/delete_file.ts)\<close>

text \<open>The literals of \<open>deleteFileTool.execute\<close>, as code units.\<close>

definition mustProvidePath :: jsstring where
  "mustProvidePath = [24517, 39035, 25552, 20379, 25991, 20214, 36335, 24452]"

definition pathNotAllowed :: jsstring where
  "pathNotAllowed = [36335, 24452, 19981, 20801, 35768, 21024, 38500, 58, 32]"

definition cannotDeleteWorkingDirectory :: jsstring where
  "cannotDeleteWorkingDirectory =
     [19981, 33021, 21024, 38500, 24037, 20316, 30446, 24405, 25110, 20854, 29238, 30446, 24405]"

definition fileDoesNotExist :: jsstring where
  "fileDoesNotExist = [25991, 20214, 19981, 23384, 22312, 58, 32]"

definition actionRecursive :: jsstring where
  "actionRecursive = [36882, 24402, 21024, 38500, 30446, 24405]"

definition actionEmptyDir :: jsstring where
  "actionEmptyDir = [21024, 38500, 31354, 30446, 24405]"

definition actionFile :: jsstring where
  "actionFile = [21024, 38500, 25991, 20214]"

definition warnSign :: jsstring where
  "warnSign = [9888, 65039, 32, 32]"

definition userCancelled :: jsstring where
  "userCancelled = [29992, 25143, 21462, 28040, 25805, 20316]"

definition deleteFailed :: jsstring where
  "deleteFailed = [21024, 38500, 22833, 36133, 58, 32]"

definition deleteFile_execute :: "world \<Rightarrow> args \<Rightarrow> tool_context \<Rightarrow> trace \<Rightarrow> tool_result \<times> trace" where
  "deleteFile_execute w a context tr =
     (let recursive = truthy (arg a (js ''recursive'')) in
      if \<not> truthy (arg a (js ''path'')) then (failed mustProvidePath, tr)
      else case arg a (js ''path'') of
        JStr filePath \<Rightarrow>
          (let fullPath = path_resolve w (ctx_workingDirectory context) filePath in
           if \<not> isPathAllowedForWrite (path_normalize w) fullPath (ctx_config context)
           then (failed (pathNotAllowed @ fullPath), tr)
           else if startsWith (ctx_workingDirectory context) fullPath
           then (failed cannotDeleteWorkingDirectory, tr)
           else if \<not> existsSync w tr fullPath
           then (failed (fileDoesNotExist @ fullPath), tr)
           else case statIsDirectory w tr fullPath of
             Inl err \<Rightarrow> (failed (deleteFailed @ exn_message err), tr)
           | Inr isDir \<Rightarrow>
               (let action = (if isDir then (if recursive then actionRecursive else actionEmptyDir)
                              else actionFile);
                    (confirmed, tr1) =
                      confirmAction context (warnSign @ action @ js '': '' @ filePath) (js ''high'') tr
                in
                if \<not> confirmed then (failed userCancelled, tr1)
                else
                  (let call = (if isDir then (if recursive then FsRm fullPath else FsRmdir fullPath)
                               else FsUnlink fullPath);
                       tr2 = tr1 @ [call]
                   in case fsThrows w tr1 call of
                        Some err \<Rightarrow> (failed (deleteFailed @ exn_message err), tr2)
                      | None \<Rightarrow> (succeeded DeleteFileData, tr2))))
      | v \<Rightarrow> (failed (deleteFailed @ resolveTypeError w v), tr))"

text \<open>The static risk levels the builtin tools declare (\<open>riskLevel\<close> of each definition).\<close>

datatype risk = Low | Medium | High

definition riskLevelOf :: "jsstring \<Rightarrow> risk option" where
  "riskLevelOf toolName =
     (if toolName = js ''list_files'' then Some Low
      else if toolName = js ''read_file'' then Some Low
      else if toolName = js ''write_file'' then Some Medium
      else if toolName = js ''append_file'' then Some Medium
      else if toolName = js ''delete_file'' then Some High
      else if toolName = js ''run_command'' then Some Medium
      else if toolName = js ''search_codebase'' then Some Low
      else None)"

text \<open>
  The absolute paths \<open>path.resolve\<close> and \<open>process.cwd\<close> produce on POSIX: the root
  \<open>/\<close>, or each segment preceded by \<open>/\<close>. A path is an ancestor of another, or equal to
  it, when its segments are a prefix of the other's.
\<close>

definition renderPath :: "jsstring list \<Rightarrow> jsstring" where
  "renderPath segs = (if segs = [] then js ''/'' else concat (map (\<lambda>s. js ''/'' @ s) segs))"

section \<open>Tool registry and dispatch (tools/index.ts, tools/manager.ts)\<close>

text \<open>
  \<open>ToolCall\<close> and \<open>ToolDefinition\<close>. Of a definition only \<open>execute\<close> is modelled; it
  may throw (\<open>Inl\<close>). The registry \<open>tools\<close> of tools/index.ts is a finite map from names
  to definitions and is an argument of the dispatchers, as is the answer of
  \<open>mcpManager.callTool\<close> (any result, any exception: what a capability server answers
  is outside the program). In the dispatchers and in the agent loop every awaited
  promise is taken to settle: \<open>execute\<close> and the LLM client return a result or throw.
  What they establish holds under that proviso; when the promise of \<open>run_command\<close>
  itself does not settle is modelled above, in \<open>executeCommand\<close>.
\<close>

record tool_call =
  tc_name :: jsstring
  tc_arguments :: args

record tool_definition =
  execute :: "args \<Rightarrow> tool_context \<Rightarrow> trace \<Rightarrow> (exn + tool_result) \<times> trace"

type_synonym registry = "jsstring \<rightharpoonup> tool_definition"

text \<open>The literals of the dispatchers: U+672A U+77E5 U+5DE5 U+5177 \<open>: \<close> (unknown tool),
  and the three prefixes put before the message of a caught exception.\<close>

definition unknownTool :: jsstring where
  "unknownTool = [26410, 30693, 24037, 20855, 58, 32]"

definition toolException :: jsstring where
  "toolException = [24037, 20855, 25191, 34892, 24322, 24120, 58, 32]"

definition builtinException :: jsstring where
  "builtinException = [20869, 32622, 24037, 20855, 25191, 34892, 24322, 24120, 58, 32]"

definition mcpException :: jsstring where
  "mcpException = [77, 67, 80, 32, 24037, 20855, 25191, 34892, 24322, 24120, 58, 32]"

text \<open>\<open>executeTool\<close> of tools/index.ts.\<close>

definition executeTool :: "registry \<Rightarrow> tool_call \<Rightarrow> tool_context \<Rightarrow> trace \<Rightarrow> tool_result \<times> trace" where
  "executeTool getTool toolCall context tr =
     (case getTool (tc_name toolCall) of
        None \<Rightarrow> (failed (unknownTool @ tc_name toolCall), tr)
      | Some tool \<Rightarrow>
          (case execute tool (tc_arguments toolCall) context (tr @ [ToolExecute (tc_name toolCall)]) of
             (Inr result, tr1) \<Rightarrow> (result, tr1)
           | (Inl err, tr1) \<Rightarrow> (failed (toolException @ exn_message err), tr1)))"

text \<open>\<open>ToolManager\<close>: the flag \<open>mcpEnabled\<close>, and what \<open>mcpManager.callTool\<close> answers.\<close>

record tool_manager =
  mcpEnabled :: bool
  mcp_callTool :: "trace \<Rightarrow> jsstring \<Rightarrow> args \<Rightarrow> exn + tool_result"

text \<open>\<open>ToolManager.executeTool\<close>.\<close>

definition ToolManager_executeTool :: "registry \<Rightarrow> tool_manager \<Rightarrow> tool_call \<Rightarrow> tool_context \<Rightarrow> trace \<Rightarrow> tool_result \<times> trace" where
  "ToolManager_executeTool getBuiltinTool mgr toolCall context tr =
     (case getBuiltinTool (tc_name toolCall) of
        Some builtinTool \<Rightarrow>
          (case execute builtinTool (tc_arguments toolCall) context
                  (tr @ [ToolExecute (tc_name toolCall)]) of
             (Inr result, tr1) \<Rightarrow> (result, tr1)
           | (Inl err, tr1) \<Rightarrow> (failed (builtinException @ exn_message err), tr1))
      | None \<Rightarrow>
          if mcpEnabled mgr
          then
            (case mcp_callTool mgr tr (tc_name toolCall) (tc_arguments toolCall) of
               Inr result \<Rightarrow> (result, tr @ [McpCallTool (tc_name toolCall)])
             | Inl err \<Rightarrow>
                 (failed (mcpException @ exn_message err), tr @ [McpCallTool (tc_name toolCall)]))
          else (failed (unknownTool @ tc_name toolCall), tr))"

fun isMcpCall :: "event \<Rightarrow> bool" where
  "isMcpCall (McpCallTool n) = True"
| "isMcpCall e = False"

text \<open>
  A builtin tool is well behaved when its \<open>execute\<close> only adds to the trace and calls
  no capability server itself (the seven builtin tools have no access to one).
\<close>

definition builtinOnly :: "tool_definition \<Rightarrow> bool" where
  "builtinOnly tool = (\<forall>a c tr. \<exists>new. snd (execute tool a c tr) = tr @ new \<and> \<not> list_ex isMcpCall new)"

section \<open>Messages and the agent (types.ts, agent/index.ts)\<close>

datatype message_role = System | User | Assistant | Tool

record native_tool_call =
  ntc_id :: jsstring
  ntc_name :: jsstring
  ntc_arguments :: args

record message =
  role :: message_role
  content :: jsstring
  name :: "jsstring option"
  tool_call_id :: "jsstring option"
  tool_calls :: "native_tool_call list option"

text \<open>
  The answer of \<open>llmClient.call\<close>. \<open>LLMResponse\<close> of types.ts declares \<open>content\<close>,
  \<open>tool_calls\<close> and \<open>stop_reason\<close>; \<open>Agent.run\<close> reads the properties \<open>response\<close> and
  \<open>tool_calls\<close> (\<open>thinking\<close> and \<open>plan\<close> are only printed, \<open>stop_reason\<close> is not read). A
  property an answer does not have reads as \<open>undefined\<close>: \<open>None\<close>. Of a tool call
  \<open>Agent.run\<close> reads the name and the arguments.
\<close>

record llm_response =
  llm_content :: jsstring
  response :: "jsstring option"
  llm_tool_calls :: "tool_call list option"


text \<open>The truth value of a string that may be \<open>undefined\<close>.\<close>

definition truthyString :: "jsstring option \<Rightarrow> bool" where
  "truthyString x = (case x of None \<Rightarrow> False | Some t \<Rightarrow> t \<noteq> [])"

text \<open>
  \<open>AgentConfig\<close>. The fields other than \<open>type\<close> are optional here: \<open>getAgentConfig\<close>
  spreads the preset it finds, and what it finds under an inherited key has none
  of them.
\<close>

record agent_config =
  cfg_type :: jsstring
  cfg_name :: "jsstring option"
  systemPrompt :: "jsstring option"
  availableTools :: "jsstring list option"
  maxLoops :: "nat option"

record agent_state =
  agent_id :: jsstring
  config :: agent_config
  messages :: "message list"
  isRunning :: bool
  currentToolCall :: "tool_call option"

text \<open>The fields of the class \<open>Agent\<close> (the LLM client is part of the environment).\<close>

record agent =
  state :: agent_state
  appConfig :: app_config
  projectContext :: "jsstring option"

text \<open>
  The calls of the LLM client made so far, each with the messages sent and the answer
  (\<open>Inl\<close>: the call threw). Only \<open>Agent.run\<close> adds to this log.
\<close>

type_synonym llm_log = "(message list \<times> (exn + llm_response)) list"

text \<open>
  The environment of an agent: the answer of the LLM client (given the calls and the
  events so far), the tool registry, \<open>JSON.stringify\<close> on an LLM answer and on the data
  of a tool result, \<open>generateId\<close> (time and randomness), the name and system prompt
  written in each preset, and the message of the \<open>TypeError\<close> raised by calling
  \<open>includes\<close> on \<open>undefined\<close>.
\<close>

record agent_env =
  llm_call :: "llm_log \<Rightarrow> trace \<Rightarrow> message list \<Rightarrow> exn + llm_response"
  getTool :: registry
  stringifyResponse :: "llm_response \<Rightarrow> jsstring"
  stringifyData :: "tool_data option \<Rightarrow> jsstring"
  generateId :: "trace \<Rightarrow> jsstring"
  presetText :: "jsstring \<Rightarrow> jsstring \<times> jsstring"
  includesTypeError :: jsstring

text \<open>The constructor of \<open>Agent\<close>, with the generated id as an argument.\<close>

definition newAgent :: "jsstring \<Rightarrow> agent_config \<Rightarrow> app_config \<Rightarrow> agent" where
  "newAgent i cfg appCfg =
     \<lparr>state = \<lparr>agent_id = i, config = cfg, messages = [], isRunning = False,
               currentToolCall = None\<rparr>,
      appConfig = appCfg, projectContext = None\<rparr>"

definition addMessage :: "agent \<Rightarrow> message \<Rightarrow> agent" where
  "addMessage ag m = ag\<lparr>state := (state ag)\<lparr>messages := messages (state ag) @ [m]\<rparr>\<rparr>"

definition setRunning :: "agent \<Rightarrow> bool \<Rightarrow> agent" where
  "setRunning ag b = ag\<lparr>state := (state ag)\<lparr>isRunning := b\<rparr>\<rparr>"

definition setCurrentToolCall :: "agent \<Rightarrow> tool_call option \<Rightarrow> agent" where
  "setCurrentToolCall ag tc = ag\<lparr>state := (state ag)\<lparr>currentToolCall := tc\<rparr>\<rparr>"

definition plainMessage :: "message_role \<Rightarrow> jsstring \<Rightarrow> message" where
  "plainMessage r c = \<lparr>role = r, content = c, name = None, tool_call_id = None, tool_calls = None\<rparr>"

text \<open>The sentence put before the project context (28 code units, then two line feeds).\<close>

definition contextPrefix :: jsstring where
  "contextPrefix =
     [20197, 19979, 26159, 24403, 21069, 39033, 30446, 30340, 30693, 35782, 25991, 26723,
      65292, 35831, 22312, 22788, 29702, 29992, 25143, 35831, 27714, 26102, 21442, 32771,
      65306, 10, 10]"

definition buildMessagesWithContext :: "agent \<Rightarrow> message list" where
  "buildMessagesWithContext ag =
     (case projectContext ag of
        None \<Rightarrow> []
      | Some ctx \<Rightarrow> if ctx \<noteq> [] then [plainMessage System (contextPrefix @ ctx)] else [])
     @ messages (state ag)"

text \<open>The literals of \<open>executeToolCall\<close> and of the tool message.\<close>

definition agentQuote :: jsstring where
  "agentQuote = [20195, 29702, 32, 34]"

definition noPermission :: jsstring where
  "noPermission = [34, 32, 26080, 26435, 20351, 29992, 24037, 20855, 58, 32]"

definition errorColon :: jsstring where
  "errorColon = [38169, 35823, 58, 32]"

text \<open>A value that may be \<open>undefined\<close>, inside a template literal.\<close>

definition orUndefined :: "jsstring option \<Rightarrow> jsstring" where
  "orUndefined x = (case x of None \<Rightarrow> js ''undefined'' | Some v \<Rightarrow> v)"

text \<open>
  \<open>Agent.executeToolCall\<close>. When the tool exists and the configuration has no
  \<open>availableTools\<close>, \<open>availableTools.includes\<close> throws a \<open>TypeError\<close>.
\<close>

definition executeToolCall :: "agent_env \<Rightarrow> world \<Rightarrow> agent \<Rightarrow> tool_call \<Rightarrow> trace \<Rightarrow> (exn + tool_result) \<times> trace" where
  "executeToolCall env w ag toolCall tr =
     (case getTool env (tc_name toolCall) of
        None \<Rightarrow> (Inr (failed (unknownTool @ tc_name toolCall)), tr)
      | Some tool \<Rightarrow>
          (case availableTools (config (state ag)) of
             None \<Rightarrow> (Inl (TypeError (includesTypeError env)), tr)
           | Some available \<Rightarrow>
               if tc_name toolCall \<notin> set available
               then (Inr (failed (agentQuote @ orUndefined (cfg_name (config (state ag)))
                                  @ noPermission @ tc_name toolCall)), tr)
               else
                 (case executeTool (getTool env) toolCall (createToolContext w (appConfig ag)) tr of
                    (result, tr1) \<Rightarrow> (Inr result, tr1))))"

text \<open>
  The \<open>for\<close> loop over the tool calls of one answer: one after the other, in order. An
  exception ends it, and \<open>currentToolCall\<close> stays at the call that threw.
\<close>

fun executeToolCalls :: "agent_env \<Rightarrow> world \<Rightarrow> agent \<Rightarrow> tool_call list \<Rightarrow> trace \<Rightarrow> ((exn \<times> tool_call) + (jsstring \<times> tool_result) list) \<times> trace" where
  "executeToolCalls env w ag [] tr = (Inr [], tr)"
| "executeToolCalls env w ag (toolCall # rest) tr =
     (case executeToolCall env w ag toolCall tr of
        (Inl err, tr1) \<Rightarrow> (Inl (err, toolCall), tr1)
      | (Inr result, tr1) \<Rightarrow>
          (case executeToolCalls env w ag rest tr1 of
             (Inl e, tr2) \<Rightarrow> (Inl e, tr2)
           | (Inr results, tr2) \<Rightarrow> (Inr ((tc_name toolCall, result) # results), tr2)))"

fun joinWith :: "jsstring \<Rightarrow> jsstring list \<Rightarrow> jsstring" where
  "joinWith sep [] = []"
| "joinWith sep [x] = x"
| "joinWith sep (x # y # zs) = x @ sep @ joinWith sep (y # zs)"

definition toolResultContent :: "agent_env \<Rightarrow> (jsstring \<times> tool_result) list \<Rightarrow> jsstring" where
  "toolResultContent env toolResults =
     joinWith [10, 10]
       (map (\<lambda>(n, result).
               js ''['' @ n @ js '']'' @ [10]
               @ (if success result then stringifyData env (data result)
                  else errorColon @ orUndefined (error result)))
            toolResults)"

text \<open>\<open>!llmResponse.tool_calls || llmResponse.tool_calls.length === 0\<close>.\<close>

definition noToolCalls :: "llm_response \<Rightarrow> bool" where
  "noToolCalls r = (case llm_tool_calls r of None \<Rightarrow> True | Some cs \<Rightarrow> length cs = 0)"

text \<open>
  The \<open>while\<close> loop of \<open>Agent.run\<close>, from the test \<open>loopCount < maxLoops\<close> on (\<open>cap\<close> is the local \<open>maxLoops\<close>). It returns
  what the code after the loop reads: the exception that left the loop, or
  \<open>finalResponse\<close> and \<open>loopCount\<close>; then the agent, the log of LLM calls, the trace.
  \<open>finalResponse\<close> starts as the empty string and takes the value of the property
  \<open>response\<close> of an answer, \<open>undefined\<close> included.
\<close>

function run_loop :: "agent_env \<Rightarrow> world \<Rightarrow> nat \<Rightarrow> nat \<Rightarrow> jsstring option \<Rightarrow> agent \<Rightarrow> llm_log \<Rightarrow> trace \<Rightarrow> (exn + jsstring option \<times> nat) \<times> agent \<times> llm_log \<times> trace" where
  "run_loop env w cap loopCount finalResponse ag log tr =
     (if loopCount < cap then
        (let messagesWithContext = buildMessagesWithContext ag;
             answer = llm_call env log tr messagesWithContext;
             log1 = log @ [(messagesWithContext, answer)]
         in case answer of
              Inl err \<Rightarrow> (Inl err, ag, log1, tr)
            | Inr llmResponse \<Rightarrow>
                (let ag1 = addMessage ag (plainMessage Assistant (stringifyResponse env llmResponse))
                 in if noToolCalls llmResponse
                    then (Inr (response llmResponse, loopCount + 1), ag1, log1, tr)
                    else
                      (case executeToolCalls env w ag1 (orEmpty (llm_tool_calls llmResponse)) tr of
                         (Inl (err, toolCall), tr1) \<Rightarrow>
                           (Inl err, setCurrentToolCall ag1 (Some toolCall), log1, tr1)
                       | (Inr toolResults, tr1) \<Rightarrow>
                           (let ag2 = addMessage (setCurrentToolCall ag1 None)
                                        ((plainMessage Tool (toolResultContent env toolResults))
                                           \<lparr>name := Some (js ''tool_results'')\<rparr>)
                            in if truthyString (response llmResponse)
                                  \<and> length (orEmpty (llm_tool_calls llmResponse)) = 0
                               then (Inr (response llmResponse, loopCount + 1), ag2, log1, tr1)
                               else run_loop env w cap (loopCount + 1)
                                      (response llmResponse) ag2 log1 tr1))))
      else (Inr (finalResponse, loopCount), ag, log, tr))"
  by pat_completeness auto
termination
  by (relation "measure (\<lambda>(env, w, cap, loopCount, finalResponse, ag, log, tr).
        cap - loopCount)") auto

declare run_loop.simps [simp del]

text \<open>\<open>this.state.config.maxLoops || this.appConfig.maxToolLoops\<close>: \<open>0\<close> is falsy.\<close>

definition effectiveMaxLoops :: "agent \<Rightarrow> nat" where
  "effectiveMaxLoops ag =
     (case maxLoops (config (state ag)) of
        None \<Rightarrow> maxToolLoops (appConfig ag)
      | Some n \<Rightarrow> if n \<noteq> 0 then n else maxToolLoops (appConfig ag))"

text \<open>
  \<open>Agent.run\<close>: the result is the exception thrown or the value returned (a text or
  \<open>undefined\<close>); the \<open>finally\<close> block clears \<open>isRunning\<close> on both ways out.
\<close>

definition run :: "agent_env \<Rightarrow> world \<Rightarrow> agent \<Rightarrow> jsstring \<Rightarrow> llm_log \<Rightarrow> trace \<Rightarrow> (exn + jsstring option) \<times> agent \<times> llm_log \<times> trace" where
  "run env w ag userMessage log tr =
     (let ag0 = addMessage (setRunning ag True) (plainMessage User userMessage);
          cap = effectiveMaxLoops ag0
      in case run_loop env w cap 0 (Some []) ag0 log tr of
           (Inl err, ag1, log1, tr1) \<Rightarrow> (Inl err, setRunning ag1 False, log1, tr1)
         | (Inr (finalResponse, loopCount), ag1, log1, tr1) \<Rightarrow>
             (Inr finalResponse, setRunning ag1 False, log1,
              if loopCount \<ge> cap then tr1 @ [LoopLimitWarning cap] else tr1))"

section \<open>Sub-agents (agent/sub-agent.ts, agent/index.ts)\<close>

record agent_preset =
  p_name :: jsstring
  p_systemPrompt :: jsstring
  p_availableTools :: "jsstring list"
  p_maxLoops :: "nat option"

text \<open>
  \<open>AGENT_PRESETS\<close>, its own keys. The name and the system prompt of each preset are
  prose; \<open>txt\<close> gives them for each key.
\<close>

definition AGENT_PRESETS :: "(jsstring \<Rightarrow> jsstring \<times> jsstring) \<Rightarrow> jsstring \<rightharpoonup> agent_preset" where
  "AGENT_PRESETS txt key =
     (if key = js ''main'' then
        Some \<lparr>p_name = fst (txt key), p_systemPrompt = snd (txt key),
              p_availableTools = [js ''list_files'', js ''read_file'', js ''write_file'',
                js ''append_file'', js ''delete_file'', js ''run_command'', js ''search_codebase''],
              p_maxLoops = None\<rparr>
      else if key = js ''test'' then
        Some \<lparr>p_name = fst (txt key), p_systemPrompt = snd (txt key),
              p_availableTools = [js ''list_files'', js ''read_file'', js ''write_file'',
                js ''run_command'', js ''search_codebase''],
              p_maxLoops = Some 5\<rparr>
      else if key = js ''review'' then
        Some \<lparr>p_name = fst (txt key), p_systemPrompt = snd (txt key),
              p_availableTools = [js ''list_files'', js ''read_file'', js ''search_codebase''],
              p_maxLoops = Some 3\<rparr>
      else if key = js ''refactor'' then
        Some \<lparr>p_name = fst (txt key), p_systemPrompt = snd (txt key),
              p_availableTools = [js ''list_files'', js ''read_file'', js ''write_file'',
                js ''search_codebase''],
              p_maxLoops = Some 6\<rparr>
      else if key = js ''custom'' then
        Some \<lparr>p_name = fst (txt key), p_systemPrompt = snd (txt key),
              p_availableTools = [js ''list_files'', js ''read_file'', js ''write_file'',
                js ''run_command'', js ''search_codebase''],
              p_maxLoops = None\<rparr>
      else None)"


definition getAgentConfig :: "(jsstring \<Rightarrow> jsstring \<times> jsstring) \<Rightarrow> jsstring \<Rightarrow> agent_config" where
  "getAgentConfig txt type =
     (case AGENT_PRESETS txt type of
        Some preset \<Rightarrow>
          \<lparr>cfg_type = type, cfg_name = Some (p_name preset),
           systemPrompt = Some (p_systemPrompt preset),
           availableTools = Some (p_availableTools preset), maxLoops = p_maxLoops preset\<rparr>
      | None \<Rightarrow>
          \<lparr>cfg_type = type, cfg_name = None, systemPrompt = None, availableTools = None,
           maxLoops = None\<rparr>)"







section \<open>Provider adapters (llm/kimi.ts, the OpenAI, Ollama and Anthropic clients)\<close>

text \<open>
  The wire message of the OpenAI-compatible clients (\<open>KimiMessage\<close>, \<open>OpenAIMessage\<close>:
  the two interfaces are the same). \<open>content\<close> may be \<open>null\<close>; \<open>name\<close> is declared and
  never set; a tool call carries its arguments as a JSON string (its \<open>type\<close> is always
  \<open>function\<close>).
\<close>

record wire_tool_call =
  wtc_id :: jsstring
  wtc_name :: jsstring
  wtc_arguments :: jsstring

record chat_message =
  c_role :: message_role
  c_content :: "jsstring option"
  c_name :: "jsstring option"
  c_tool_call_id :: "jsstring option"
  c_tool_calls :: "wire_tool_call list option"

text \<open>\<open>msg.content || null\<close> and \<open>msg.tool_call_id || ''\<close>.\<close>

definition orNull :: "jsstring \<Rightarrow> jsstring option" where
  "orNull c = (if c \<noteq> [] then Some c else None)"

definition orEmptyString :: "jsstring option \<Rightarrow> jsstring" where
  "orEmptyString x = (case x of None \<Rightarrow> [] | Some v \<Rightarrow> v)"

text \<open>
  The body of the loop of \<open>convertMessages\<close> in llm/kimi.ts: every canonical message
  pushes one wire message. \<open>stringify\<close> is \<open>JSON.stringify\<close> on the arguments.
\<close>

definition kimi_convert :: "(args \<Rightarrow> jsstring) \<Rightarrow> message \<Rightarrow> chat_message" where
  "kimi_convert stringify msg =
     (case role msg of
        System \<Rightarrow> \<lparr>c_role = System, c_content = Some (content msg), c_name = None, c_tool_call_id = None,
                    c_tool_calls = None\<rparr>
      | User \<Rightarrow> \<lparr>c_role = User, c_content = Some (content msg), c_name = None, c_tool_call_id = None,
                  c_tool_calls = None\<rparr>
      | Assistant \<Rightarrow>
          \<lparr>c_role = Assistant, c_content = orNull (content msg), c_name = None, c_tool_call_id = None,
           c_tool_calls =
             (case tool_calls msg of
                None \<Rightarrow> None
              | Some tcs \<Rightarrow>
                  if length tcs > 0
                  then Some (map (\<lambda>tc. \<lparr>wtc_id = ntc_id tc, wtc_name = ntc_name tc,
                                          wtc_arguments = stringify (ntc_arguments tc)\<rparr>) tcs)
                  else None)\<rparr>
      | Tool \<Rightarrow> \<lparr>c_role = Tool, c_content = Some (content msg),
                  c_name = None, c_tool_call_id = Some (orEmptyString (tool_call_id msg)), c_tool_calls = None\<rparr>)"

text \<open>
  \<open>convertMessages\<close> of llm/kimi.ts. \<open>systemPromptText\<close> is what \<open>buildSystemPrompt()\<close>
  returns (a constant text in prose).
\<close>

definition kimi_convertMessages :: "jsstring \<Rightarrow> (args \<Rightarrow> jsstring) \<Rightarrow> message list \<Rightarrow> chat_message list" where
  "kimi_convertMessages systemPromptText stringify msgs =
     \<lparr>c_role = System, c_content = Some systemPromptText, c_name = None, c_tool_call_id = None,
      c_tool_calls = None\<rparr>
     # map (kimi_convert stringify) msgs"

text \<open>\<open>convertMessages\<close> of the OpenAI client with function calling: the same text.\<close>

definition openai_convert :: "(args \<Rightarrow> jsstring) \<Rightarrow> message \<Rightarrow> chat_message" where
  "openai_convert stringify msg =
     (case role msg of
        System \<Rightarrow> \<lparr>c_role = System, c_content = Some (content msg), c_name = None, c_tool_call_id = None,
                    c_tool_calls = None\<rparr>
      | User \<Rightarrow> \<lparr>c_role = User, c_content = Some (content msg), c_name = None, c_tool_call_id = None,
                  c_tool_calls = None\<rparr>
      | Assistant \<Rightarrow>
          \<lparr>c_role = Assistant, c_content = orNull (content msg), c_name = None, c_tool_call_id = None,
           c_tool_calls =
             (case tool_calls msg of
                None \<Rightarrow> None
              | Some tcs \<Rightarrow>
                  if length tcs > 0
                  then Some (map (\<lambda>tc. \<lparr>wtc_id = ntc_id tc, wtc_name = ntc_name tc,
                                          wtc_arguments = stringify (ntc_arguments tc)\<rparr>) tcs)
                  else None)\<rparr>
      | Tool \<Rightarrow> \<lparr>c_role = Tool, c_content = Some (content msg),
                  c_name = None, c_tool_call_id = Some (orEmptyString (tool_call_id msg)), c_tool_calls = None\<rparr>)"

definition openai_convertMessages :: "jsstring \<Rightarrow> (args \<Rightarrow> jsstring) \<Rightarrow> message list \<Rightarrow> chat_message list" where
  "openai_convertMessages systemPromptText stringify msgs =
     \<lparr>c_role = System, c_content = Some systemPromptText, c_name = None, c_tool_call_id = None,
      c_tool_calls = None\<rparr>
     # map (openai_convert stringify) msgs"

text \<open>\<open>OllamaMessage\<close> and \<open>convertMessages\<close> of llm/ollama.ts.\<close>

record ollama_message =
  o_role :: message_role
  o_content :: jsstring
  o_tool_calls :: "(jsstring \<times> args) list option"

definition ollama_convert :: "message \<Rightarrow> ollama_message" where
  "ollama_convert msg =
     (case role msg of
        System \<Rightarrow> \<lparr>o_role = System, o_content = content msg, o_tool_calls = None\<rparr>
      | User \<Rightarrow> \<lparr>o_role = User, o_content = content msg, o_tool_calls = None\<rparr>
      | Assistant \<Rightarrow>
          \<lparr>o_role = Assistant, o_content = content msg,
           o_tool_calls =
             (case tool_calls msg of
                None \<Rightarrow> None
              | Some tcs \<Rightarrow>
                  if length tcs > 0
                  then Some (map (\<lambda>tc. (ntc_name tc, ntc_arguments tc)) tcs)
                  else None)\<rparr>
      | Tool \<Rightarrow> \<lparr>o_role = Tool, o_content = content msg, o_tool_calls = None\<rparr>)"

definition ollama_convertMessages :: "jsstring \<Rightarrow> message list \<Rightarrow> ollama_message list" where
  "ollama_convertMessages systemPromptText msgs =
     \<lparr>o_role = System, o_content = systemPromptText, o_tool_calls = None\<rparr>
     # map ollama_convert msgs"

text \<open>
  The Anthropic client with tool use: content blocks, a message whose content is a
  string or a list of blocks, and the part of the request body that carries the
  conversation (\<open>system\<close> and \<open>messages\<close>).
\<close>

datatype content_block =
    TextBlock jsstring
  | ToolUseBlock jsstring jsstring args
  | ToolResultBlock jsstring jsstring

datatype anthropic_content = Str jsstring | Blocks "content_block list"

record anthropic_message =
  a_role :: message_role
  a_content :: anthropic_content

record anthropic_request =
  ar_system :: jsstring
  ar_messages :: "anthropic_message list"

text \<open>
  One turn of the loop of the Anthropic \<open>convertMessages\<close> on the list built so far. A
  tool result is appended to the last wire message when that one is a user message
  (its content becomes a list of blocks if it was a string).
\<close>

definition anthropic_step :: "anthropic_message list \<Rightarrow> message \<Rightarrow> anthropic_message list" where
  "anthropic_step result msg =
     (case role msg of
        System \<Rightarrow> result
      | User \<Rightarrow> result @ [\<lparr>a_role = User, a_content = Str (content msg)\<rparr>]
      | Assistant \<Rightarrow>
          (let contentBlocks =
                 (if content msg \<noteq> [] then [TextBlock (content msg)] else [])
                 @ (case tool_calls msg of
                      None \<Rightarrow> []
                    | Some tcs \<Rightarrow>
                        if length tcs > 0
                        then map (\<lambda>tc. ToolUseBlock (ntc_id tc) (ntc_name tc) (ntc_arguments tc)) tcs
                        else [])
           in if length contentBlocks > 0
              then result @ [\<lparr>a_role = Assistant, a_content = Blocks contentBlocks\<rparr>]
              else result)
      | Tool \<Rightarrow>
          (let toolResultBlock = ToolResultBlock (orEmptyString (tool_call_id msg)) (content msg)
           in if length result > 0 \<and> a_role (last result) = User
              then
                (case a_content (last result) of
                   Blocks bs \<Rightarrow>
                     butlast result @ [(last result)\<lparr>a_content := Blocks (bs @ [toolResultBlock])\<rparr>]
                 | Str t \<Rightarrow>
                     butlast result
                     @ [(last result)\<lparr>a_content := Blocks [TextBlock t, toolResultBlock]\<rparr>])
              else result @ [\<lparr>a_role = User, a_content = Blocks [toolResultBlock]\<rparr>]))"

text \<open>The greeting put first when the list does not start with a user message.\<close>

definition greeting :: jsstring where
  "greeting = [20320, 22909, 65292, 35831, 20934, 22791, 22909, 24110, 21161, 25105, 12290]"

definition anthropic_convertMessages :: "message list \<Rightarrow> anthropic_message list" where
  "anthropic_convertMessages msgs =
     (let result = foldl anthropic_step [] msgs
      in if length result = 0 \<or> a_role (hd result) \<noteq> User
         then \<lparr>a_role = User, a_content = Str greeting\<rparr> # result
         else result)"

text \<open>What \<open>callAnthropic\<close> puts in \<open>system\<close> and \<open>messages\<close> of the request body.\<close>

definition callAnthropic_request :: "jsstring \<Rightarrow> message list \<Rightarrow> anthropic_request" where
  "callAnthropic_request systemPromptText msgs =
     (let systemMessages = filter (\<lambda>m. role m = System) msgs;
          fullSystemPrompt =
            (if length systemMessages > 0
             then systemPromptText @ [10, 10] @ joinWith [10, 10] (map content systemMessages)
             else systemPromptText)
      in \<lparr>ar_system = fullSystemPrompt, ar_messages = anthropic_convertMessages msgs\<rparr>)"

text \<open>
  The system payloads of a request: the wire messages with the role \<open>system\<close>, and for
  Anthropic the \<open>system\<close> parameter (always sent) as well.
\<close>

definition canonicalSystemMessages :: "message list \<Rightarrow> message list" where
  "canonicalSystemMessages msgs = filter (\<lambda>m. role m = System) msgs"

definition chatSystemPayloads :: "chat_message list \<Rightarrow> jsstring option list" where
  "chatSystemPayloads wire = map c_content (filter (\<lambda>m. c_role m = System) wire)"

definition ollamaSystemPayloads :: "ollama_message list \<Rightarrow> jsstring list" where
  "ollamaSystemPayloads wire = map o_content (filter (\<lambda>m. o_role m = System) wire)"

definition anthropicSystemPayloads :: "anthropic_request \<Rightarrow> jsstring list" where
  "anthropicSystemPayloads req =
     ar_system req
     # map (\<lambda>m. case a_content m of Str t \<Rightarrow> t | Blocks bs \<Rightarrow> [])
         (filter (\<lambda>m. a_role m = System) (ar_messages req))"

text \<open>What \<open>JSON.stringify\<close> gives on the empty record, for concrete runs.\<close>

definition stringifyEmpty :: "args \<Rightarrow> jsstring" where
  "stringifyEmpty a = js ''{}''"

text \<open>
  The messages \<open>Agent.run\<close> sends on its first turn when a project context is set: the
  context as a system message, then the user message.
\<close>

definition firstTurn :: "message list" where
  "firstTurn = [plainMessage System (js ''ctx''), plainMessage User (js ''hi'')]"

section \<open>A small world for concrete runs\<close>

text \<open>
  \<open>path.resolve\<close> on a second argument that is already in normal form: an absolute
  path resolves to itself, a relative one is appended to the working directory.
\<close>

definition simpleResolve :: "jsstring \<Rightarrow> jsstring \<Rightarrow> jsstring" where
  "simpleResolve wd p = (if startsWith p (js ''/'') then p else wd @ js ''/'' @ p)"

text \<open>
  A world in which the user always gives the same answer, every path is an existing
  file, no call throws, and a subprocess prints \<open>ok\<close> and exits with code 0.
\<close>

definition plainWorld :: "bool \<Rightarrow> world" where
  "plainWorld answer =
     \<lparr>confirm = (\<lambda>tr m. answer),
      existsSync = (\<lambda>tr p. True),
      statIsDirectory = (\<lambda>tr p. Inr False),
      fsThrows = (\<lambda>tr e. None),
      subprocess = (\<lambda>tr c d t. [StdoutData (js ''ok''), Close (Some 0)]),
      path_normalize = (\<lambda>p. p),
      path_resolve = simpleResolve,
      resolveTypeError = (\<lambda>v. js ''The paths[1] argument must be of type string'')\<rparr>"

definition plainConfig :: "bool \<Rightarrow> jsstring list \<Rightarrow> app_config" where
  "plainConfig auto allowed =
     createAppConfig (js ''/home/u'')
       (DEFAULT_PROJECT_CONFIG\<lparr>allow_commands := Some allowed\<rparr>) (Some auto) None"

text \<open>
  Worlds in which every subprocess outlives its timer. In the first it closes after
  the signal. In the second nothing comes after the signal: no \<open>close\<close> event (a
  grandchild of the shell still holds the pipes, say). In the third the signal cannot
  be delivered and the \<open>error\<close> event of the subprocess says so.
\<close>

definition slowWorld :: world where
  "slowWorld = (plainWorld True)
     \<lparr>subprocess := (\<lambda>tr c d t.
        [StdoutData (js ''par''), TimerFired, StderrData (js ''e''), Close None])\<rparr>"

definition hungWorld :: world where
  "hungWorld = (plainWorld True)
     \<lparr>subprocess := (\<lambda>tr c d t. [StdoutData (js ''par''), TimerFired])\<rparr>"

definition killFailsWorld :: world where
  "killFailsWorld = (plainWorld True)
     \<lparr>subprocess := (\<lambda>tr c d t.
        [StdoutData (js ''par''), TimerFired, ProcError (Error (js ''kill EPERM''))])\<rparr>"

text \<open>
  A registry with one builtin tool named \<open>search_codebase\<close> (it returns its argument
  \<open>q\<close>), and a tool manager whose capability servers answer every call.
\<close>

definition echoTool :: tool_definition where
  "echoTool = \<lparr>execute = (\<lambda>a c tr. (Inr (succeeded (OtherData (arg a (js ''q'')))), tr))\<rparr>"

definition oneTool :: registry where
  "oneTool = [js ''search_codebase'' \<mapsto> echoTool]"

definition remoteManager :: tool_manager where
  "remoteManager = \<lparr>mcpEnabled = True,
      mcp_callTool = (\<lambda>tr n a. Inr (succeeded (OtherData (JStr (js ''remote'')))))\<rparr>"

text \<open>
  What one run of the loop from \<open>loopCount = k\<close> leaves behind, as a relation between
  the log before and after (used in the proofs): the calls made are at most
  \<open>cap - k\<close>. On a return the count has grown by their number, and either no call was
  made and the loop was never entered, or the value returned is the \<open>response\<close> of the
  last answer, which had no tool call unless the count reached the cap. An exception
  is the one the last call threw, or the \<open>TypeError\<close> of an agent without a tool list
  after an answer with tool calls.
\<close>

definition loopPost :: "agent_env \<Rightarrow> agent \<Rightarrow> nat \<Rightarrow> nat \<Rightarrow> jsstring option \<Rightarrow> llm_log \<Rightarrow> (exn + jsstring option \<times> nat) \<Rightarrow> llm_log \<Rightarrow> bool" where
  "loopPost env ag cap k fr log res log' =
     (\<exists>new. log' = log @ new \<and> length new \<le> cap - k \<and>
        (case res of
           Inl e \<Rightarrow>
             new \<noteq> [] \<and>
             (snd (last new) = Inl e
              \<or> (e = TypeError (includesTypeError env)
                  \<and> availableTools (config (state ag)) = None
                  \<and> (\<exists>r. snd (last new) = Inr r \<and> \<not> noToolCalls r)))
         | Inr (txt, k') \<Rightarrow>
             k' = k + length new \<and>
             (if new = [] then txt = fr \<and> cap \<le> k
              else \<exists>r. snd (last new) = Inr r \<and> txt = response r
                     \<and> (noToolCalls r \<or> k' = cap))))"

text \<open>
  Environments and agents for concrete runs: an LLM that answers \<open>done\<close> at once, an LLM
  that always asks for a tool nobody registered, a client that throws, a native client
  that answers \<open>done\<close>, the main agent, and the main agent with \<open>maxLoops: 0\<close> written
  in its configuration.
\<close>

definition baseEnv :: "llm_response \<Rightarrow> agent_env" where
  "baseEnv r =
     \<lparr>llm_call = (\<lambda>log tr msgs. Inr r),
      getTool = oneTool,
      stringifyResponse = (\<lambda>r. llm_content r),
      stringifyData = (\<lambda>d. js ''{}''),
      generateId = (\<lambda>tr. js ''sub1''),
      presetText = (\<lambda>k. (k, k)),
      includesTypeError = js ''Cannot read properties of undefined''\<rparr>"


definition busyEnv :: agent_env where
  "busyEnv = baseEnv \<lparr>llm_content = js ''wait'', response = Some (js ''wait''),
     llm_tool_calls = Some [\<lparr>tc_name = js ''nope'', tc_arguments = Map.empty\<rparr>]\<rparr>"




definition zeroCapAgent :: agent where
  "zeroCapAgent = newAgent (js ''a0'')
     ((getAgentConfig (\<lambda>k. (k, k)) (js ''main''))\<lparr>maxLoops := Some 0\<rparr>) (plainConfig False [])"


section \<open>Path authorisation\<close>

lemma js_includes_sublist: "js_includes s d = sublist d s"
  by (induction s) (simp_all add: sublist_Cons_right)

lemma js_includes_iff: "js_includes s d \<longleftrightarrow> (\<exists>pre post. s = pre @ d @ post)"
  by (simp add: js_includes_sublist sublist_def)

lemma startsWith_iff: "startsWith s p \<longleftrightarrow> (\<exists>post. s = p @ post)"
  by (auto simp: startsWith_def prefix_def)

lemma isPathAllowedForWrite_iff:
  "isPathAllowedForWrite nf p cfg \<longleftrightarrow>
     (\<not> (\<exists>d \<in> set (orEmpty (deny_paths (project cfg))). \<exists>pre post. nf p = pre @ d @ post)
      \<and> (orEmpty (allow_write_paths (project cfg)) = []
           \<or> (\<exists>al \<in> set (orEmpty (allow_write_paths (project cfg))). \<exists>post. nf p = al @ post)))"
  by (auto simp: isPathAllowedForWrite_def Let_def list_ex_iff js_includes_iff startsWith_iff)

lemma deleteFile_blocked:
  assumes "arg a (js ''path'') = JStr fp"
    and "\<not> isPathAllowedForWrite (path_normalize w)
             (path_resolve w (ctx_workingDirectory c) fp) (ctx_config c)"
  shows "success (fst (deleteFile_execute w a c tr)) = False
         \<and> snd (deleteFile_execute w a c tr) = tr"
  using assms by (simp add: deleteFile_execute_def Let_def failed_def)

text \<open>
  C3. A path is allowed for writing exactly when its normalised form contains no
  entry of \<open>deny_paths\<close> as a substring and, if \<open>allow_write_paths\<close> is not empty, starts
  with one of its entries. So a denied path is blocked whatever the allow-list says
  (the deny check comes first), and \<open>delete_file\<close> then fails without touching anything.
\<close>

theorem isPathAllowedForWrite_deny_before_allow:
  "(isPathAllowedForWrite nf p cfg \<longleftrightarrow>
      (\<not> (\<exists>d \<in> set (orEmpty (deny_paths (project cfg))). \<exists>pre post. nf p = pre @ d @ post)
       \<and> (orEmpty (allow_write_paths (project cfg)) = []
            \<or> (\<exists>al \<in> set (orEmpty (allow_write_paths (project cfg))). \<exists>post. nf p = al @ post))))
   \<and> ((\<exists>d \<in> set (orEmpty (deny_paths (project cfg))). \<exists>pre post. nf p = pre @ d @ post)
        \<longrightarrow> \<not> isPathAllowedForWrite nf p cfg)
   \<and> (arg a (js ''path'') = JStr fp
        \<and> \<not> isPathAllowedForWrite (path_normalize w)
              (path_resolve w (ctx_workingDirectory c) fp) (ctx_config c)
        \<longrightarrow> success (fst (deleteFile_execute w a c tr)) = False
            \<and> snd (deleteFile_execute w a c tr) = tr)"
proof (intro conjI impI)
  show "isPathAllowedForWrite nf p cfg \<longleftrightarrow>
      (\<not> (\<exists>d \<in> set (orEmpty (deny_paths (project cfg))). \<exists>pre post. nf p = pre @ d @ post)
       \<and> (orEmpty (allow_write_paths (project cfg)) = []
            \<or> (\<exists>al \<in> set (orEmpty (allow_write_paths (project cfg))). \<exists>post. nf p = al @ post)))"
    by (rule isPathAllowedForWrite_iff)
next
  assume "\<exists>d \<in> set (orEmpty (deny_paths (project cfg))). \<exists>pre post. nf p = pre @ d @ post"
  then show "\<not> isPathAllowedForWrite nf p cfg"
    by (simp add: isPathAllowedForWrite_iff)
next
  assume h: "arg a (js ''path'') = JStr fp
        \<and> \<not> isPathAllowedForWrite (path_normalize w)
              (path_resolve w (ctx_workingDirectory c) fp) (ctx_config c)"
  show "success (fst (deleteFile_execute w a c tr)) = False"
    using h deleteFile_blocked by blast
  show "snd (deleteFile_execute w a c tr) = tr"
    using h deleteFile_blocked by blast
qed

text \<open>
  The path \<open>/w/.git/x\<close> under the policy \<open>deny_paths = [.git]\<close>,
  \<open>allow_write_paths = [/w]\<close>: it starts with the allowed prefix and is blocked.
\<close>

theorem isPathAllowedForWrite_deny_before_allow_witness:
  "js ''/w/.git/x'' = js ''/w/'' @ js ''.git'' @ js ''/x''
   \<and> js ''/w/.git/x'' = js ''/w'' @ js ''/.git/x''
   \<and> \<not> isPathAllowedForWrite (\<lambda>p. p) (js ''/w/.git/x'')
         \<lparr>workingDirectory = js ''/w'', autoConfirm = False,
          project = \<lparr>allow_commands = None, allow_write_paths = Some [js ''/w''],
                     deny_paths = Some [js ''.git'']\<rparr>,
          maxToolLoops = 8, debug = False\<rparr>"
proof -
  have d: "js ''/w/.git/x'' = js ''/w/'' @ js ''.git'' @ js ''/x''"
    by (simp add: js_def)
  have al: "js ''/w/.git/x'' = js ''/w'' @ js ''/.git/x''"
    by (simp add: js_def)
  from d have "\<exists>d \<in> set (orEmpty (Some [js ''.git''])). \<exists>pre post.
      js ''/w/.git/x'' = pre @ d @ post"
    unfolding orEmpty_def by (simp del: append_assoc) blast
  then show ?thesis
    using d al isPathAllowedForWrite_deny_before_allow
      [of "\<lambda>p. p" "js ''/w/.git/x''"
          "\<lparr>workingDirectory = js ''/w'', autoConfirm = False,
            project = \<lparr>allow_commands = None, allow_write_paths = Some [js ''/w''],
                       deny_paths = Some [js ''.git'']\<rparr>,
            maxToolLoops = 8, debug = False\<rparr>"]
    by simp
qed

section \<open>Deleting the working directory\<close>

lemma renderPath_prefix: "startsWith (renderPath (anc @ rest)) (renderPath anc)"
  by (cases rest) (auto simp: startsWith_def renderPath_def js_def)

lemma deleteFile_wd:
  assumes "arg a (js ''path'') = JStr fp"
    and "startsWith (ctx_workingDirectory c) (path_resolve w (ctx_workingDirectory c) fp)"
  shows "success (fst (deleteFile_execute w a c tr)) = False
         \<and> snd (deleteFile_execute w a c tr) = tr"
  using assms by (simp add: deleteFile_execute_def Let_def failed_def)

text \<open>
  C6. A deletion request whose resolved path is the working directory or one of its
  ancestors is refused: the result is a failed \<open>ToolResult\<close> and the trace is unchanged
  (no prompt, nothing deleted).
\<close>

theorem deleteFile_refuses_working_directory_and_ancestors:
  assumes "arg a (js ''path'') = JStr filePath"
    and "ctx_workingDirectory c = renderPath (anc @ rest)"
    and "path_resolve w (ctx_workingDirectory c) filePath = renderPath anc"
  shows "success (fst (deleteFile_execute w a c tr)) = False
         \<and> snd (deleteFile_execute w a c tr) = tr
         \<and> \<not> list_ex isDeletion (snd (deleteFile_execute w a c []))"
proof -
  have "startsWith (ctx_workingDirectory c) (path_resolve w (ctx_workingDirectory c) filePath)"
    using assms(2,3) renderPath_prefix by simp
  then have "\<And>t. success (fst (deleteFile_execute w a c t)) = False
         \<and> snd (deleteFile_execute w a c t) = t"
    using assms(1) deleteFile_wd by blast
  then show ?thesis by simp
qed

text \<open>
  With the working directory \<open>/home/u\<close>, the request to delete \<open>/home\<close> is refused.
\<close>

theorem deleteFile_refuses_working_directory_and_ancestors_witness:
  "success (fst (deleteFile_execute (plainWorld True) [js ''path'' \<mapsto> JStr (js ''/home'')]
       (createToolContext (plainWorld True) (plainConfig True [])) [])) = False
   \<and> snd (deleteFile_execute (plainWorld True) [js ''path'' \<mapsto> JStr (js ''/home'')]
       (createToolContext (plainWorld True) (plainConfig True [])) []) = []"
proof -
  have a: "arg [js ''path'' \<mapsto> JStr (js ''/home'')] (js ''path'') = JStr (js ''/home'')"
    by (simp add: arg_def)
  have wd: "ctx_workingDirectory (createToolContext (plainWorld True) (plainConfig True []))
      = renderPath ([js ''home''] @ [js ''u''])"
    by (simp add: createToolContext_def plainConfig_def createAppConfig_def renderPath_def js_def)
  have r: "path_resolve (plainWorld True)
       (ctx_workingDirectory (createToolContext (plainWorld True) (plainConfig True [])))
       (js ''/home'') = renderPath [js ''home'']"
    by (simp add: plainWorld_def simpleResolve_def startsWith_def renderPath_def js_def)
  show ?thesis
    using deleteFile_refuses_working_directory_and_ancestors [OF a wd r, of "[]"] by simp
qed

section \<open>The subprocess and its timeout\<close>

lemma foldl_data:
  "\<forall>e \<in> set xs. isData e \<Longrightarrow>
     foldl exec_step st xs = st\<lparr>es_stdout := es_stdout st @ stdoutOf xs,
                                 es_stderr := es_stderr st @ stderrOf xs\<rparr>"
proof (induction xs arbitrary: st)
  case Nil
  then show ?case by simp
next
  case (Cons e es)
  then show ?case by (cases e) simp_all
qed

lemma exec_step_settled:
  "settled st = Some r \<Longrightarrow> settled (exec_step st e) = Some r"
  by (cases e) (simp_all add: settle_def)

lemma foldl_settled:
  "settled st = Some r \<Longrightarrow> settled (foldl exec_step st xs) = Some r"
  by (induction xs arbitrary: st) (simp_all add: exec_step_settled)

lemma exec_step_timer_off:
  "\<not> timer st \<Longrightarrow> \<not> timer (exec_step st e) \<and> kills (exec_step st e) = kills st"
  by (cases e) (simp_all add: settle_def split: option.splits)

lemma foldl_timer_off:
  "\<not> timer st \<Longrightarrow> kills (foldl exec_step st xs) = kills st"
proof (induction xs arbitrary: st)
  case Nil
  then show ?case by simp
next
  case (Cons e es)
  then show ?case using exec_step_timer_off[of st e] by simp
qed

lemma stdoutOf_append: "stdoutOf (xs @ ys) = stdoutOf xs @ stdoutOf ys"
  by (induction xs rule: stdoutOf.induct) simp_all

lemma stderrOf_append: "stderrOf (xs @ ys) = stderrOf xs @ stderrOf ys"
  by (induction xs rule: stderrOf.induct) simp_all

lemma foldl_quiet:
  "\<not> timer st \<Longrightarrow> \<forall>e \<in> set xs. isQuiet e \<Longrightarrow>
     foldl exec_step st xs = st\<lparr>es_stdout := es_stdout st @ stdoutOf xs,
                                 es_stderr := es_stderr st @ stderrOf xs\<rparr>"
proof (induction xs arbitrary: st)
  case Nil
  then show ?case by simp
next
  case (Cons e es)
  then show ?case by (cases e) simp_all
qed

lemma after_timer:
  assumes "\<forall>e \<in> set pre. isData e" and "\<forall>e \<in> set mid. isQuiet e"
  shows "foldl exec_step exec_init (pre @ [TimerFired] @ mid)
     = exec_init\<lparr>es_stdout := stdoutOf (pre @ mid), es_stderr := stderrOf (pre @ mid),
          killed := True, timer := False, kills := 1\<rparr>"
proof -
  let ?s1 = "foldl exec_step exec_init pre"
  let ?s2 = "exec_step ?s1 TimerFired"
  have s1: "?s1 = exec_init\<lparr>es_stdout := stdoutOf pre, es_stderr := stderrOf pre\<rparr>"
    using foldl_data[OF assms(1), of exec_init] by (simp add: exec_init_def)
  have s2: "?s2 = exec_init\<lparr>es_stdout := stdoutOf pre, es_stderr := stderrOf pre,
       killed := True, timer := False, kills := 1\<rparr>"
    unfolding s1 by (simp add: exec_init_def)
  have "\<not> timer ?s2" unfolding s2 by (simp add: exec_init_def)
  then have "foldl exec_step ?s2 mid = ?s2\<lparr>es_stdout := es_stdout ?s2 @ stdoutOf mid,
                                 es_stderr := es_stderr ?s2 @ stderrOf mid\<rparr>"
    using assms(2) by (rule foldl_quiet)
  then have "foldl exec_step ?s2 mid
     = exec_init\<lparr>es_stdout := stdoutOf (pre @ mid), es_stderr := stderrOf (pre @ mid),
          killed := True, timer := False, kills := 1\<rparr>"
    unfolding s2 by (simp add: exec_init_def stdoutOf_append stderrOf_append)
  then show ?thesis by simp
qed

lemma executeCommand_settled:
  assumes "settled (foldl exec_step exec_init evs) = Some r"
    and "\<not> timer (foldl exec_step exec_init evs)"
    and "kills (foldl exec_step exec_init evs) = n"
  shows "executeCommand (evs @ post) = (Some r, n)"
proof -
  let ?st = "foldl exec_step exec_init evs"
  have "settled (foldl exec_step ?st post) = Some r"
    using assms(1) by (rule foldl_settled)
  moreover have "kills (foldl exec_step ?st post) = n"
    using foldl_timer_off[OF assms(2), of post] assms(3) by simp
  ultimately show ?thesis
    by (simp add: executeCommand_def Let_def)
qed

lemma executeCommand_timeout:
  assumes "\<forall>e \<in> set pre. isData e" and "\<forall>e \<in> set mid. isQuiet e"
  shows "executeCommand (pre @ [TimerFired] @ mid @ [Close c] @ post) =
     (Some (Inr \<lparr>stdout = stdoutOf (pre @ mid), stderr = stderrOf (pre @ mid) @ timeoutNote,
                 code = - 1\<rparr>), 1)"
proof -
  let ?evs = "(pre @ [TimerFired] @ mid) @ [Close c]"
  let ?r = "Inr \<lparr>stdout = stdoutOf (pre @ mid), stderr = stderrOf (pre @ mid) @ timeoutNote,
                 code = - 1\<rparr> :: exn + run_command_result"
  have st: "foldl exec_step exec_init ?evs
      = exec_step (foldl exec_step exec_init (pre @ [TimerFired] @ mid)) (Close c)"
    by (simp only: foldl_append foldl.simps)
  have "settled (foldl exec_step exec_init ?evs) = Some ?r"
      "\<not> timer (foldl exec_step exec_init ?evs)"
      "kills (foldl exec_step exec_init ?evs) = 1"
    unfolding st after_timer[OF assms] by (simp_all add: exec_init_def settle_def)
  then have "executeCommand (?evs @ post) = (Some ?r, 1)"
    by (rule executeCommand_settled)
  then show ?thesis by simp
qed

lemma executeCommand_timeout_error:
  assumes "\<forall>e \<in> set pre. isData e" and "\<forall>e \<in> set mid. isQuiet e"
  shows "executeCommand (pre @ [TimerFired] @ mid @ [ProcError err] @ post) = (Some (Inl err), 1)"
proof -
  let ?evs = "(pre @ [TimerFired] @ mid) @ [ProcError err]"
  have st: "foldl exec_step exec_init ?evs
      = exec_step (foldl exec_step exec_init (pre @ [TimerFired] @ mid)) (ProcError err)"
    by (simp only: foldl_append foldl.simps)
  have "settled (foldl exec_step exec_init ?evs) = Some (Inl err)"
      "\<not> timer (foldl exec_step exec_init ?evs)"
      "kills (foldl exec_step exec_init ?evs) = 1"
    unfolding st after_timer[OF assms] by (simp_all add: exec_init_def settle_def)
  then have "executeCommand (?evs @ post) = (Some (Inl err), 1)"
    by (rule executeCommand_settled)
  then show ?thesis by simp
qed

lemma executeCommand_timeout_silent:
  assumes "\<forall>e \<in> set pre. isData e" and "\<forall>e \<in> set mid. isQuiet e"
  shows "executeCommand (pre @ [TimerFired] @ mid) = (None, 1)"
  unfolding executeCommand_def after_timer[OF assms] by (simp add: exec_init_def)

lemma runCommand_run_timeout:
  assumes "subprocess w tr command (ctx_workingDirectory c) timeout
             = pre @ [TimerFired] @ mid @ [Close cd] @ post"
    and "\<forall>e \<in> set pre. isData e" and "\<forall>e \<in> set mid. isQuiet e"
  shows "runCommand_run w command c timeout tr =
     (Some \<lparr>success = True,
            data = Some (RunCommandData \<lparr>stdout = stdoutOf (pre @ mid),
                     stderr = stderrOf (pre @ mid) @ timeoutNote, code = - 1\<rparr>),
            error = None\<rparr>,
      tr @ [Spawn command (ctx_workingDirectory c) timeout, SigKill])"
  using executeCommand_timeout[OF assms(2,3), of cd post] assms(1)
  by (simp add: runCommand_run_def succeeded_def)

lemma runCommand_run_timeout_error:
  assumes "subprocess w tr command (ctx_workingDirectory c) timeout
             = pre @ [TimerFired] @ mid @ [ProcError err] @ post"
    and "\<forall>e \<in> set pre. isData e" and "\<forall>e \<in> set mid. isQuiet e"
  shows "runCommand_run w command c timeout tr =
     (Some \<lparr>success = False, data = None, error = Some (commandFailed @ exn_message err)\<rparr>,
      tr @ [Spawn command (ctx_workingDirectory c) timeout, SigKill])"
  using executeCommand_timeout_error[OF assms(2,3), of err post] assms(1)
  by (simp add: runCommand_run_def failed_def)

lemma runCommand_run_timeout_silent:
  assumes "subprocess w tr command (ctx_workingDirectory c) timeout = pre @ [TimerFired] @ mid"
    and "\<forall>e \<in> set pre. isData e" and "\<forall>e \<in> set mid. isQuiet e"
  shows "runCommand_run w command c timeout tr =
     (None, tr @ [Spawn command (ctx_workingDirectory c) timeout, SigKill])"
  using executeCommand_timeout_silent[OF assms(2,3)] assms(1)
  by (simp add: runCommand_run_def)

lemma runCommand_execute_confirmed:
  assumes "arg a (js ''command'') = JStr command" and "trim command \<noteq> []"
    and "runCommand_confirm command c tr = (True, tr1)"
  shows "runCommand_execute w a c tr =
     runCommand_run w command c
       (if truthy (arg a (js ''timeout'')) then arg a (js ''timeout'') else JNum DEFAULT_TIMEOUT)
       tr1"
proof -
  have ne: "command \<noteq> []" using assms(2) by (auto simp: trim_def)
  show ?thesis using assms ne by (simp add: runCommand_execute_def Let_def)
qed

lemma runCommand_confirm_dangerous:
  "isDangerousCommand command \<Longrightarrow>
     runCommand_confirm command c tr =
       confirmAction c (dangerPrefix @ executeCommandPrompt @ command) (js ''high'') tr"
  by (simp add: runCommand_confirm_def Let_def)

lemma js_high_medium: "js ''medium'' \<noteq> js ''high''"
  by (simp add: js_def)

lemma rm_rf_dangerous: "isDangerousCommand (js ''rm -rf /'')"
  by (simp add: isDangerousCommand_def DANGEROUS_PATTERNS_def rx_test_def rx_matches_def
      js_def rx_any_def lit_i_def ci_def rx_plus_def rx_opt_def ws_def isSpace_def toUpperAscii_def)

lemma sudo_dangerous: "isDangerousCommand (js ''sudo ls'')"
  by (simp add: isDangerousCommand_def DANGEROUS_PATTERNS_def rx_test_def rx_matches_def
      js_def rx_any_def lit_i_def ci_def rx_plus_def rx_opt_def ws_def isSpace_def toUpperAscii_def)

section \<open>Dangerous commands are not blank\<close>

lemma inked_not_nullable: "inked r \<Longrightarrow> \<not> nullable r"
  by (induction r) auto

lemma inked_deriv: "inked r \<Longrightarrow> isSpace c \<Longrightarrow> inked (deriv c r)"
  by (induction r) (auto dest: inked_not_nullable)

lemma inked_foldl:
  "inked r \<Longrightarrow> \<forall>c \<in> set s. isSpace c \<Longrightarrow> inked (foldl (\<lambda>r c. deriv c r) r s)"
  by (induction s arbitrary: r) (simp_all add: inked_deriv)

lemma inked_no_test:
  assumes "inked r" and "\<forall>c \<in> set s. isSpace c"
  shows "\<not> rx_test r s"
proof -
  have "inked (Cat rx_any (Cat r rx_any))" using assms(1) by simp
  then have "inked (foldl (\<lambda>r c. deriv c r) (Cat rx_any (Cat r rx_any)) s)"
    using assms(2) inked_foldl by blast
  then show ?thesis
    unfolding rx_test_def rx_matches_def by (rule inked_not_nullable)
qed

lemma space_small_or_big: "isSpace c \<Longrightarrow> c \<le> 32 \<or> 160 \<le> c"
  unfolding isSpace_def by linarith

lemma space_upper: "isSpace c \<Longrightarrow> toUpperAscii c = c"
  using space_small_or_big[of c] unfolding toUpperAscii_def by auto

lemma upper_range: "toUpperAscii x \<noteq> x \<Longrightarrow> 65 \<le> toUpperAscii x \<and> toUpperAscii x \<le> 90"
  unfolding toUpperAscii_def by (auto split: if_splits)

lemma upper_not_space: "\<not> isSpace x \<Longrightarrow> \<not> isSpace (toUpperAscii x)"
  using upper_range[of x] space_small_or_big[of "toUpperAscii x"]
  by (cases "toUpperAscii x = x") auto

lemma inked_ci: "\<not> isSpace (of_char ch) \<Longrightarrow> inked (ci ch)"
  unfolding ci_def inked.simps using space_upper upper_not_space by metis

lemma inked_lit_i: "s \<noteq> [] \<Longrightarrow> inked (ci (hd s)) \<Longrightarrow> inked (lit_i s)"
  by (cases s) (simp_all add: lit_i_def)

lemma patterns_inked: "\<forall>p \<in> set DANGEROUS_PATTERNS. inked p"
  by (simp add: DANGEROUS_PATTERNS_def inked_lit_i inked_ci isSpace_def)

lemma trim_blank: "trim s = [] \<Longrightarrow> \<forall>c \<in> set s. isSpace c"
proof -
  assume t: "trim s = []"
  let ?d = "dropWhile isSpace s"
  have all: "\<forall>x \<in> set ?d. isSpace x"
    using t by (simp add: trim_def dropWhile_eq_Nil_conv)
  have "?d = []"
  proof (rule ccontr)
    assume ne: "?d \<noteq> []"
    then have "\<not> isSpace (hd ?d)" by (rule hd_dropWhile)
    moreover have "hd ?d \<in> set ?d" using ne by simp
    ultimately show False using all by blast
  qed
  then show ?thesis by (simp add: dropWhile_eq_Nil_conv)
qed

lemma dangerous_not_blank: "isDangerousCommand command \<Longrightarrow> trim command \<noteq> []"
proof
  assume d: "isDangerousCommand command" and t: "trim command = []"
  from d obtain p where p: "p \<in> set DANGEROUS_PATTERNS" "rx_test p command"
    by (auto simp: isDangerousCommand_def list_ex_iff)
  then show False using patterns_inked inked_no_test trim_blank[OF t] by blast
qed

section \<open>Confirmation before high-risk actions\<close>

lemma confirmAction_agent:
  "confirmAction (createToolContext w cfg) m lvl tr =
     (if autoConfirm cfg \<and> lvl \<noteq> js ''high'' then (True, tr)
      else (confirm w tr m, tr @ [UiConfirm m]))"
  by (simp add: createToolContext_def)

lemma deleteFile_shape:
  "(snd (deleteFile_execute w a c tr) = tr \<and> success (fst (deleteFile_execute w a c tr)) = False)
   \<or> (\<exists>m. \<not> fst (confirmAction c m (js ''high'') tr)
          \<and> snd (deleteFile_execute w a c tr) = snd (confirmAction c m (js ''high'') tr)
          \<and> success (fst (deleteFile_execute w a c tr)) = False)
   \<or> (\<exists>m e. fst (confirmAction c m (js ''high'') tr) \<and> isDeletion e
          \<and> snd (deleteFile_execute w a c tr) = snd (confirmAction c m (js ''high'') tr) @ [e])"
proof (cases "arg a (js ''path'')")
  case (JStr filePath)
  let ?full = "path_resolve w (ctx_workingDirectory c) filePath"
  show ?thesis
  proof (cases "filePath \<noteq> [] \<and> isPathAllowedForWrite (path_normalize w) ?full (ctx_config c)
      \<and> \<not> startsWith (ctx_workingDirectory c) ?full \<and> existsSync w tr ?full")
    case False
    then show ?thesis using JStr
      by (auto simp: deleteFile_execute_def Let_def failed_def)
  next
    case True
    show ?thesis
    proof (cases "statIsDirectory w tr ?full")
      case (Inl err)
      then show ?thesis using JStr True
        by (simp add: deleteFile_execute_def Let_def failed_def)
    next
      case (Inr isDir)
      let ?action = "if isDir then (if truthy (arg a (js ''recursive'')) then actionRecursive
          else actionEmptyDir) else actionFile"
      let ?m = "warnSign @ ?action @ js '': '' @ filePath"
      let ?call = "if isDir then (if truthy (arg a (js ''recursive'')) then FsRm ?full
          else FsRmdir ?full) else FsUnlink ?full"
      obtain ok tr1 where g: "confirmAction c ?m (js ''high'') tr = (ok, tr1)"
        by (cases "confirmAction c ?m (js ''high'') tr")
      have del: "isDeletion ?call" by simp
      show ?thesis
      proof (cases ok)
        case False
        have "snd (deleteFile_execute w a c tr) = tr1
            \<and> success (fst (deleteFile_execute w a c tr)) = False"
          using JStr True Inr g False
          by (simp add: deleteFile_execute_def Let_def failed_def)
        then show ?thesis using g False
          by (metis fst_conv snd_conv)
      next
        case ok: True
        have "snd (deleteFile_execute w a c tr) = tr1 @ [?call]"
          using JStr True Inr g ok
          by (simp add: deleteFile_execute_def Let_def split: option.splits)
        then show ?thesis using g ok del
          by (metis fst_conv snd_conv)
      qed
    qed
  qed
qed (simp_all add: deleteFile_execute_def Let_def failed_def)

lemma riskLevelOf_High: "riskLevelOf n = Some High \<Longrightarrow> n = js ''delete_file''"
  by (simp add: riskLevelOf_def split: if_splits)

lemma runCommand_execute_dangerous:
  assumes "arg a (js ''command'') = JStr command" and "isDangerousCommand command"
  shows "runCommand_execute w a c tr =
     (case confirmAction c (dangerPrefix @ executeCommandPrompt @ command) (js ''high'') tr of
        (confirmed, tr1) \<Rightarrow>
          if \<not> confirmed then (Some (failed userCancelledCommand), tr1)
          else runCommand_run w command c
                 (if truthy (arg a (js ''timeout'')) then arg a (js ''timeout'')
                  else JNum DEFAULT_TIMEOUT) tr1)"
proof -
  have nb: "trim command \<noteq> []" using assms(2) by (rule dangerous_not_blank)
  then have ne: "command \<noteq> []" by (auto simp: trim_def)
  show ?thesis
    using assms nb ne
    by (simp add: runCommand_execute_def Let_def runCommand_confirm_dangerous)
qed

lemma runCommand_run_trace:
  "\<exists>n. snd (runCommand_run w command c t tr)
        = tr @ [Spawn command (ctx_workingDirectory c) t] @ replicate n SigKill"
  by (auto simp: runCommand_run_def Let_def split: prod.splits option.splits sum.splits)

text \<open>
  C1. The only builtin tool whose static risk level is high is \<open>delete_file\<close>. With
  the context the agent builds, the callback asked at level \<open>high\<close> always reaches the
  prompt of the user, whatever \<open>autoConfirm\<close> is; \<open>autoConfirm\<close> answers in the user's
  place only at a level other than \<open>high\<close>. Every run of \<open>delete_file\<close> either changes
  nothing, or asks and is refused, or asks, is allowed, and only then makes its one
  deleting call. Every run of \<open>run_command\<close> on a dangerous command asks first, and
  starts the subprocess only after the user agreed.
\<close>

theorem high_risk_always_confirmed:
  "(riskLevelOf n = Some High \<longrightarrow> n = js ''delete_file'')
   \<and> confirmAction (createToolContext w cfg) m (js ''high'') tr
        = (confirm w tr m, tr @ [UiConfirm m])
   \<and> (autoConfirm cfg \<and> lvl \<noteq> js ''high''
        \<longrightarrow> confirmAction (createToolContext w cfg) m lvl tr = (True, tr))
   \<and> ((snd (deleteFile_execute w a (createToolContext w cfg) tr) = tr
         \<and> success (fst (deleteFile_execute w a (createToolContext w cfg) tr)) = False)
        \<or> (\<exists>q. \<not> confirm w tr q
              \<and> snd (deleteFile_execute w a (createToolContext w cfg) tr) = tr @ [UiConfirm q]
              \<and> success (fst (deleteFile_execute w a (createToolContext w cfg) tr)) = False)
        \<or> (\<exists>q e. confirm w tr q \<and> isDeletion e
              \<and> snd (deleteFile_execute w a (createToolContext w cfg) tr)
                   = tr @ [UiConfirm q, e]))
   \<and> (arg b (js ''command'') = JStr command \<and> isDangerousCommand command
        \<longrightarrow> (if confirm w tr (dangerPrefix @ executeCommandPrompt @ command)
             then \<exists>t k. snd (runCommand_execute w b (createToolContext w cfg) tr)
                    = tr @ [UiConfirm (dangerPrefix @ executeCommandPrompt @ command),
                            Spawn command (workingDirectory cfg) t] @ replicate k SigKill
             else runCommand_execute w b (createToolContext w cfg) tr
                    = (Some (failed userCancelledCommand),
                       tr @ [UiConfirm (dangerPrefix @ executeCommandPrompt @ command)])))"
proof (intro conjI impI)
  assume "riskLevelOf n = Some High"
  then show "n = js ''delete_file''" by (rule riskLevelOf_High)
next
  show "confirmAction (createToolContext w cfg) m (js ''high'') tr
        = (confirm w tr m, tr @ [UiConfirm m])"
    by (simp add: confirmAction_agent)
next
  assume "autoConfirm cfg \<and> lvl \<noteq> js ''high''"
  then show "confirmAction (createToolContext w cfg) m lvl tr = (True, tr)"
    by (simp add: confirmAction_agent)
next
  let ?c = "createToolContext w cfg"
  have hi: "\<And>q. confirmAction ?c q (js ''high'') tr = (confirm w tr q, tr @ [UiConfirm q])"
    by (simp add: confirmAction_agent)
  show "(snd (deleteFile_execute w a ?c tr) = tr
         \<and> success (fst (deleteFile_execute w a ?c tr)) = False)
        \<or> (\<exists>q. \<not> confirm w tr q
              \<and> snd (deleteFile_execute w a ?c tr) = tr @ [UiConfirm q]
              \<and> success (fst (deleteFile_execute w a ?c tr)) = False)
        \<or> (\<exists>q e. confirm w tr q \<and> isDeletion e
              \<and> snd (deleteFile_execute w a ?c tr) = tr @ [UiConfirm q, e])"
    using deleteFile_shape[of w a ?c tr] unfolding hi by simp
next
  let ?c = "createToolContext w cfg"
  let ?msg = "dangerPrefix @ executeCommandPrompt @ command"
  let ?t = "if truthy (arg b (js ''timeout'')) then arg b (js ''timeout'') else JNum DEFAULT_TIMEOUT"
  assume h: "arg b (js ''command'') = JStr command \<and> isDangerousCommand command"
  have hi: "confirmAction ?c ?msg (js ''high'') tr = (confirm w tr ?msg, tr @ [UiConfirm ?msg])"
    by (simp add: confirmAction_agent)
  have e: "runCommand_execute w b ?c tr =
      (if \<not> confirm w tr ?msg then (Some (failed userCancelledCommand), tr @ [UiConfirm ?msg])
       else runCommand_run w command ?c ?t (tr @ [UiConfirm ?msg]))"
    using runCommand_execute_dangerous[of b command w ?c tr] h unfolding hi by simp
  have wd: "ctx_workingDirectory ?c = workingDirectory cfg"
    by (simp add: createToolContext_def)
  obtain k where k: "snd (runCommand_run w command ?c ?t (tr @ [UiConfirm ?msg]))
        = (tr @ [UiConfirm ?msg]) @ [Spawn command (workingDirectory cfg) ?t] @ replicate k SigKill"
    using runCommand_run_trace[of w command ?c ?t "tr @ [UiConfirm ?msg]"] unfolding wd by blast
  show "if confirm w tr ?msg
        then \<exists>t k. snd (runCommand_execute w b ?c tr)
               = tr @ [UiConfirm ?msg, Spawn command (workingDirectory cfg) t] @ replicate k SigKill
        else runCommand_execute w b ?c tr
               = (Some (failed userCancelledCommand), tr @ [UiConfirm ?msg])"
  proof (cases "confirm w tr ?msg")
    case True
    then have "snd (runCommand_execute w b ?c tr)
        = tr @ [UiConfirm ?msg, Spawn command (workingDirectory cfg) ?t] @ replicate k SigKill"
      using e k by simp
    then have "\<exists>t k. snd (runCommand_execute w b ?c tr)
        = tr @ [UiConfirm ?msg, Spawn command (workingDirectory cfg) t] @ replicate k SigKill"
      by blast
    then show ?thesis using True by simp
  next
    case False
    then show ?thesis using e by simp
  qed
qed

lemma plain_auto: "autoConfirm (plainConfig True al)"
  by (simp add: plainConfig_def createAppConfig_def)

text \<open>
  With \<open>autoConfirm\<close> on and a user who declines: a prompt at level \<open>medium\<close> is
  answered without asking, and \<open>sudo ls\<close> is asked about and cancelled.
\<close>

theorem high_risk_always_confirmed_witness:
  "riskLevelOf (js ''delete_file'') = Some High
   \<and> autoConfirm (plainConfig True [])
   \<and> js ''medium'' \<noteq> js ''high''
   \<and> confirmAction (createToolContext (plainWorld False) (plainConfig True []))
        (js ''append'') (js ''medium'') [] = (True, [])
   \<and> isDangerousCommand (js ''sudo ls'')
   \<and> runCommand_execute (plainWorld False) [js ''command'' \<mapsto> JStr (js ''sudo ls'')]
        (createToolContext (plainWorld False) (plainConfig True [])) []
      = (Some (failed userCancelledCommand),
         [UiConfirm (dangerPrefix @ executeCommandPrompt @ js ''sudo ls'')])"
proof -
  have r: "riskLevelOf (js ''delete_file'') = Some High"
    by (simp add: riskLevelOf_def js_def)
  have a: "arg [js ''command'' \<mapsto> JStr (js ''sudo ls'')] (js ''command'') = JStr (js ''sudo ls'')"
    by (simp add: arg_def)
  have no: "\<And>m. \<not> confirm (plainWorld False) [] m"
    by (simp add: plainWorld_def)
  show ?thesis
    using r a no plain_auto[of "[]"] js_high_medium sudo_dangerous
      high_risk_always_confirmed
        [of "js ''delete_file''" "plainWorld False" "plainConfig True []" "js ''append''" "[]"
            "js ''medium''" "Map.empty" "[js ''command'' \<mapsto> JStr (js ''sudo ls'')]"
            "js ''sudo ls''"]
    by simp
qed

text \<open>
  C4. \<open>rm -rf /\<close> matches a dangerous pattern. The whitelist is not consulted for
  that: under every context (every \<open>allow_commands\<close>, every \<open>autoConfirm\<close>) the tool
  calls the callback at level \<open>high\<close>, and with the agent's context the user is asked
  before anything runs.
\<close>

theorem rm_rf_root_is_dangerous_for_every_whitelist:
  "isDangerousCommand (js ''rm -rf /'')
   \<and> runCommand_confirm (js ''rm -rf /'') c tr
       = confirmAction c (dangerPrefix @ executeCommandPrompt @ js ''rm -rf /'') (js ''high'') tr
   \<and> (arg a (js ''command'') = JStr (js ''rm -rf /'') \<longrightarrow>
        runCommand_execute w a (createToolContext w cfg) tr =
          (if confirm w tr (dangerPrefix @ executeCommandPrompt @ js ''rm -rf /'')
           then runCommand_run w (js ''rm -rf /'') (createToolContext w cfg)
                  (if truthy (arg a (js ''timeout'')) then arg a (js ''timeout'')
                   else JNum DEFAULT_TIMEOUT)
                  (tr @ [UiConfirm (dangerPrefix @ executeCommandPrompt @ js ''rm -rf /'')])
           else (Some (failed userCancelledCommand),
                 tr @ [UiConfirm (dangerPrefix @ executeCommandPrompt @ js ''rm -rf /'')])))"
proof (intro conjI impI)
  show "isDangerousCommand (js ''rm -rf /'')" by (rule rm_rf_dangerous)
next
  show "runCommand_confirm (js ''rm -rf /'') c tr
       = confirmAction c (dangerPrefix @ executeCommandPrompt @ js ''rm -rf /'') (js ''high'') tr"
    using rm_rf_dangerous by (rule runCommand_confirm_dangerous)
next
  let ?msg = "dangerPrefix @ executeCommandPrompt @ js ''rm -rf /''"
  assume h: "arg a (js ''command'') = JStr (js ''rm -rf /'')"
  have hi: "confirmAction (createToolContext w cfg) ?msg (js ''high'') tr
      = (confirm w tr ?msg, tr @ [UiConfirm ?msg])"
    by (simp add: confirmAction_agent)
  show "runCommand_execute w a (createToolContext w cfg) tr =
          (if confirm w tr ?msg
           then runCommand_run w (js ''rm -rf /'') (createToolContext w cfg)
                  (if truthy (arg a (js ''timeout'')) then arg a (js ''timeout'')
                   else JNum DEFAULT_TIMEOUT)
                  (tr @ [UiConfirm ?msg])
           else (Some (failed userCancelledCommand), tr @ [UiConfirm ?msg]))"
    using runCommand_execute_dangerous[OF h rm_rf_dangerous, of w "createToolContext w cfg" tr]
    unfolding hi by simp
qed

lemma star_allows: "isCommandAllowed command (plainConfig auto [js ''*''])"
  by (simp add: isCommandAllowed_def plainConfig_def createAppConfig_def orEmpty_def
      endsWith_def startsWith_def js_def)

text \<open>
  With \<open>autoConfirm\<close> on, the whitelist \<open>[*]\<close> (which allows every command) and a
  user who declines, \<open>rm -rf /\<close> is asked about and cancelled.
\<close>

theorem rm_rf_root_is_dangerous_for_every_whitelist_witness:
  "isCommandAllowed (js ''rm -rf /'') (plainConfig True [js ''*''])
   \<and> runCommand_execute (plainWorld False) [js ''command'' \<mapsto> JStr (js ''rm -rf /'')]
        (createToolContext (plainWorld False) (plainConfig True [js ''*''])) []
      = (Some (failed userCancelledCommand),
         [UiConfirm (dangerPrefix @ executeCommandPrompt @ js ''rm -rf /'')])"
proof -
  have a: "arg [js ''command'' \<mapsto> JStr (js ''rm -rf /'')] (js ''command'')
      = JStr (js ''rm -rf /'')"
    by (simp add: arg_def)
  have no: "\<And>m. \<not> confirm (plainWorld False) [] m"
    by (simp add: plainWorld_def)
  show ?thesis
    using a no star_allows[of "js ''rm -rf /''" True]
      rm_rf_root_is_dangerous_for_every_whitelist
        [of "createToolContext (plainWorld False) (plainConfig True [js ''*''])" "[]"
            "[js ''command'' \<mapsto> JStr (js ''rm -rf /'')]" "plainWorld False"
            "plainConfig True [js ''*'']"]
    by simp
qed

lemma sudo_confirmed:
  "confirm w [] (dangerPrefix @ executeCommandPrompt @ js ''sudo ls'') \<Longrightarrow>
   runCommand_confirm (js ''sudo ls'') (createToolContext w (plainConfig False [])) []
     = (True, [UiConfirm (dangerPrefix @ executeCommandPrompt @ js ''sudo ls'')])"
  using runCommand_confirm_dangerous[OF sudo_dangerous,
      of "createToolContext w (plainConfig False [])" "[]"]
  by (simp add: confirmAction_agent)

lemma sudo_timeout:
  "(if truthy (arg [js ''command'' \<mapsto> JStr (js ''sudo ls'')] (js ''timeout''))
    then arg [js ''command'' \<mapsto> JStr (js ''sudo ls'')] (js ''timeout'')
    else JNum DEFAULT_TIMEOUT) = JNum 30000"
  by (simp add: arg_def js_def DEFAULT_TIMEOUT_def)

lemma sudo_execute:
  assumes "confirm w [] (dangerPrefix @ executeCommandPrompt @ js ''sudo ls'')"
  shows "runCommand_execute w [js ''command'' \<mapsto> JStr (js ''sudo ls'')]
           (createToolContext w (plainConfig False [])) []
     = runCommand_run w (js ''sudo ls'') (createToolContext w (plainConfig False []))
         (JNum 30000) [UiConfirm (dangerPrefix @ executeCommandPrompt @ js ''sudo ls'')]"
proof -
  have a: "arg [js ''command'' \<mapsto> JStr (js ''sudo ls'')] (js ''command'') = JStr (js ''sudo ls'')"
    by (simp add: arg_def)
  have t: "trim (js ''sudo ls'') \<noteq> []"
    using sudo_dangerous by (rule dangerous_not_blank)
  show ?thesis
    using runCommand_execute_confirmed[OF a t sudo_confirmed[OF assms], of w]
    unfolding sudo_timeout .
qed

lemma plain_workingDirectory:
  "ctx_workingDirectory (createToolContext w (plainConfig auto allowed)) = js ''/home/u''"
  by (simp add: createToolContext_def plainConfig_def createAppConfig_def)

text \<open>
  C7, as the specification words it, does not hold. A subprocess prints \<open>par\<close> and
  exceeds its timeout; the signal is sent. When no \<open>close\<close> event follows, the promise
  of \<open>executeCommand\<close> never settles and the tool returns nothing at all. When the
  signal cannot be delivered and the \<open>error\<close> event follows, the promise is rejected
  and the tool returns a failed result, without the output collected.
\<close>

theorem runCommand_timeout_without_close:
  "runCommand_execute hungWorld [js ''command'' \<mapsto> JStr (js ''sudo ls'')]
      (createToolContext hungWorld (plainConfig False [])) []
    = (None,
       [UiConfirm (dangerPrefix @ executeCommandPrompt @ js ''sudo ls''),
        Spawn (js ''sudo ls'') (js ''/home/u'') (JNum 30000), SigKill])
   \<and> runCommand_execute killFailsWorld [js ''command'' \<mapsto> JStr (js ''sudo ls'')]
      (createToolContext killFailsWorld (plainConfig False [])) []
    = (Some \<lparr>success = False, data = None,
             error = Some (commandFailed @ js ''kill EPERM'')\<rparr>,
       [UiConfirm (dangerPrefix @ executeCommandPrompt @ js ''sudo ls''),
        Spawn (js ''sudo ls'') (js ''/home/u'') (JNum 30000), SigKill])"
proof
  let ?m = "dangerPrefix @ executeCommandPrompt @ js ''sudo ls''"
  have c: "confirm hungWorld [] ?m" by (simp add: hungWorld_def plainWorld_def)
  have sp: "subprocess hungWorld [UiConfirm ?m] (js ''sudo ls'')
       (ctx_workingDirectory (createToolContext hungWorld (plainConfig False []))) (JNum 30000)
      = [StdoutData (js ''par'')] @ [TimerFired] @ []"
    by (simp add: hungWorld_def)
  show "runCommand_execute hungWorld [js ''command'' \<mapsto> JStr (js ''sudo ls'')]
      (createToolContext hungWorld (plainConfig False [])) []
    = (None, [UiConfirm ?m, Spawn (js ''sudo ls'') (js ''/home/u'') (JNum 30000), SigKill])"
    unfolding sudo_execute[OF c]
    using runCommand_run_timeout_silent[OF sp] by (simp add: plain_workingDirectory)
next
  let ?m = "dangerPrefix @ executeCommandPrompt @ js ''sudo ls''"
  have c: "confirm killFailsWorld [] ?m" by (simp add: killFailsWorld_def plainWorld_def)
  have sp: "subprocess killFailsWorld [UiConfirm ?m] (js ''sudo ls'')
       (ctx_workingDirectory (createToolContext killFailsWorld (plainConfig False [])))
       (JNum 30000)
      = [StdoutData (js ''par'')] @ [TimerFired] @ [] @ [ProcError (Error (js ''kill EPERM''))] @ []"
    by (simp add: killFailsWorld_def)
  show "runCommand_execute killFailsWorld [js ''command'' \<mapsto> JStr (js ''sudo ls'')]
      (createToolContext killFailsWorld (plainConfig False [])) []
    = (Some \<lparr>success = False, data = None,
             error = Some (commandFailed @ js ''kill EPERM'')\<rparr>,
       [UiConfirm ?m, Spawn (js ''sudo ls'') (js ''/home/u'') (JNum 30000), SigKill])"
    unfolding sudo_execute[OF c]
    using runCommand_run_timeout_error[OF sp] by (simp add: plain_workingDirectory)
qed

text \<open>
  C7, amended. The command is a string that is not blank and the user has agreed
  (or was not asked); only output arrives before the timer fires. Then one \<open>SIGKILL\<close>
  is sent, and what the tool returns is decided by the first event after it that is
  not output. When that event is the closing of the subprocess, the tool returns a
  successful result: the output collected up to the closing, the note appended to
  the standard error, the code \<open>-1\<close>. When it is an \<open>error\<close> event, the tool returns a
  failed result with the message of the error. When there is no such event, the tool
  never returns.
\<close>

theorem runCommand_after_timeout:
  assumes "arg a (js ''command'') = JStr command" and "trim command \<noteq> []"
    and "runCommand_confirm command c tr = (True, tr1)"
    and "subprocess w tr1 command (ctx_workingDirectory c)
           (if truthy (arg a (js ''timeout'')) then arg a (js ''timeout'')
            else JNum DEFAULT_TIMEOUT)
         = pre @ [TimerFired] @ rest"
    and "\<forall>e \<in> set pre. isData e"
  shows "(\<forall>mid cd post. rest = mid @ [Close cd] @ post \<and> (\<forall>e \<in> set mid. isQuiet e) \<longrightarrow>
            runCommand_execute w a c tr =
              (Some \<lparr>success = True,
                     data = Some (RunCommandData \<lparr>stdout = stdoutOf (pre @ mid),
                              stderr = stderrOf (pre @ mid) @ timeoutNote, code = - 1\<rparr>),
                     error = None\<rparr>,
               tr1 @ [Spawn command (ctx_workingDirectory c)
                        (if truthy (arg a (js ''timeout'')) then arg a (js ''timeout'')
                         else JNum DEFAULT_TIMEOUT), SigKill]))
       \<and> (\<forall>mid err post. rest = mid @ [ProcError err] @ post \<and> (\<forall>e \<in> set mid. isQuiet e) \<longrightarrow>
            runCommand_execute w a c tr =
              (Some \<lparr>success = False, data = None,
                     error = Some (commandFailed @ exn_message err)\<rparr>,
               tr1 @ [Spawn command (ctx_workingDirectory c)
                        (if truthy (arg a (js ''timeout'')) then arg a (js ''timeout'')
                         else JNum DEFAULT_TIMEOUT), SigKill]))
       \<and> ((\<forall>e \<in> set rest. isQuiet e) \<longrightarrow>
            runCommand_execute w a c tr =
              (None,
               tr1 @ [Spawn command (ctx_workingDirectory c)
                        (if truthy (arg a (js ''timeout'')) then arg a (js ''timeout'')
                         else JNum DEFAULT_TIMEOUT), SigKill]))"
proof (intro conjI allI impI)
  fix mid cd post
  assume h: "rest = mid @ [Close cd] @ post \<and> (\<forall>e \<in> set mid. isQuiet e)"
  then have sp: "subprocess w tr1 command (ctx_workingDirectory c)
           (if truthy (arg a (js ''timeout'')) then arg a (js ''timeout'')
            else JNum DEFAULT_TIMEOUT)
         = pre @ [TimerFired] @ mid @ [Close cd] @ post"
    using assms(4) by simp
  have q: "\<forall>e \<in> set mid. isQuiet e" using h by simp
  show "runCommand_execute w a c tr =
              (Some \<lparr>success = True,
                     data = Some (RunCommandData \<lparr>stdout = stdoutOf (pre @ mid),
                              stderr = stderrOf (pre @ mid) @ timeoutNote, code = - 1\<rparr>),
                     error = None\<rparr>,
               tr1 @ [Spawn command (ctx_workingDirectory c)
                        (if truthy (arg a (js ''timeout'')) then arg a (js ''timeout'')
                         else JNum DEFAULT_TIMEOUT), SigKill])"
    unfolding runCommand_execute_confirmed[OF assms(1,2,3)]
    using sp assms(5) q by (rule runCommand_run_timeout)
next
  fix mid err post
  assume h: "rest = mid @ [ProcError err] @ post \<and> (\<forall>e \<in> set mid. isQuiet e)"
  then have sp: "subprocess w tr1 command (ctx_workingDirectory c)
           (if truthy (arg a (js ''timeout'')) then arg a (js ''timeout'')
            else JNum DEFAULT_TIMEOUT)
         = pre @ [TimerFired] @ mid @ [ProcError err] @ post"
    using assms(4) by simp
  have q: "\<forall>e \<in> set mid. isQuiet e" using h by simp
  show "runCommand_execute w a c tr =
              (Some \<lparr>success = False, data = None,
                     error = Some (commandFailed @ exn_message err)\<rparr>,
               tr1 @ [Spawn command (ctx_workingDirectory c)
                        (if truthy (arg a (js ''timeout'')) then arg a (js ''timeout'')
                         else JNum DEFAULT_TIMEOUT), SigKill])"
    unfolding runCommand_execute_confirmed[OF assms(1,2,3)]
    using sp assms(5) q by (rule runCommand_run_timeout_error)
next
  assume q: "\<forall>e \<in> set rest. isQuiet e"
  show "runCommand_execute w a c tr =
              (None,
               tr1 @ [Spawn command (ctx_workingDirectory c)
                        (if truthy (arg a (js ''timeout'')) then arg a (js ''timeout'')
                         else JNum DEFAULT_TIMEOUT), SigKill])"
    unfolding runCommand_execute_confirmed[OF assms(1,2,3)]
    using assms(4,5) q by (rule runCommand_run_timeout_silent)
qed

text \<open>
  A subprocess that prints \<open>par\<close>, outlives the timer, prints \<open>e\<close> on the standard error
  and closes with no exit code after the signal.
\<close>

theorem runCommand_after_timeout_witness:
  "runCommand_execute slowWorld [js ''command'' \<mapsto> JStr (js ''sudo ls'')]
      (createToolContext slowWorld (plainConfig False [])) []
    = (Some \<lparr>success = True,
             data = Some (RunCommandData \<lparr>stdout = js ''par'', stderr = js ''e'' @ timeoutNote,
                      code = - 1\<rparr>),
             error = None\<rparr>,
       [UiConfirm (dangerPrefix @ executeCommandPrompt @ js ''sudo ls''),
        Spawn (js ''sudo ls'') (js ''/home/u'') (JNum 30000), SigKill])"
proof -
  let ?a = "[js ''command'' \<mapsto> JStr (js ''sudo ls'')]"
  let ?c = "createToolContext slowWorld (plainConfig False [])"
  let ?m = "dangerPrefix @ executeCommandPrompt @ js ''sudo ls''"
  have a: "arg ?a (js ''command'') = JStr (js ''sudo ls'')"
    by (simp add: arg_def)
  have t: "trim (js ''sudo ls'') \<noteq> []"
    using sudo_dangerous by (rule dangerous_not_blank)
  have g: "runCommand_confirm (js ''sudo ls'') ?c [] = (True, [UiConfirm ?m])"
    by (rule sudo_confirmed) (simp add: slowWorld_def plainWorld_def)
  have sp: "subprocess slowWorld [UiConfirm ?m] (js ''sudo ls'') (ctx_workingDirectory ?c)
       (if truthy (arg ?a (js ''timeout'')) then arg ?a (js ''timeout'')
        else JNum DEFAULT_TIMEOUT)
      = [StdoutData (js ''par'')] @ [TimerFired] @ [StderrData (js ''e''), Close None]"
    by (simp add: slowWorld_def)
  have d1: "\<forall>e \<in> set [StdoutData (js ''par'')]. isData e" by simp
  have "\<forall>mid cd post.
          [StderrData (js ''e''), Close None] = mid @ [Close cd] @ post
            \<and> (\<forall>e \<in> set mid. isQuiet e) \<longrightarrow>
          runCommand_execute slowWorld ?a ?c [] =
              (Some \<lparr>success = True,
                     data = Some (RunCommandData
                              \<lparr>stdout = stdoutOf ([StdoutData (js ''par'')] @ mid),
                               stderr = stderrOf ([StdoutData (js ''par'')] @ mid) @ timeoutNote,
                               code = - 1\<rparr>),
                     error = None\<rparr>,
               [UiConfirm ?m] @ [Spawn (js ''sudo ls'') (ctx_workingDirectory ?c)
                        (if truthy (arg ?a (js ''timeout'')) then arg ?a (js ''timeout'')
                         else JNum DEFAULT_TIMEOUT), SigKill])"
    using runCommand_after_timeout[OF a t g sp d1] by blast
  then have "[StderrData (js ''e''), Close None] = [StderrData (js ''e'')] @ [Close None] @ []
            \<and> (\<forall>e \<in> set [StderrData (js ''e'')]. isQuiet e) \<longrightarrow>
          runCommand_execute slowWorld ?a ?c [] =
              (Some \<lparr>success = True,
                     data = Some (RunCommandData
                              \<lparr>stdout = stdoutOf ([StdoutData (js ''par'')] @ [StderrData (js ''e'')]),
                               stderr = stderrOf ([StdoutData (js ''par'')] @ [StderrData (js ''e'')])
                                          @ timeoutNote,
                               code = - 1\<rparr>),
                     error = None\<rparr>,
               [UiConfirm ?m] @ [Spawn (js ''sudo ls'') (ctx_workingDirectory ?c)
                        (if truthy (arg ?a (js ''timeout'')) then arg ?a (js ''timeout'')
                         else JNum DEFAULT_TIMEOUT), SigKill])"
    by blast
  then show ?thesis
    unfolding sudo_timeout plain_workingDirectory by simp
qed

section \<open>Dispatch: builtin before MCP\<close>

text \<open>
  C5. When the name of a tool call is the name of a builtin tool, \<open>executeTool\<close> of
  the tool manager returns what the builtin \<open>execute\<close> returns (or the failed result
  made of its exception), and the trace holds no call of a capability server. A
  call of a capability server is in the trace only when no builtin tool has the
  name and MCP is enabled.
\<close>

theorem builtin_wins:
  "(getBuiltinTool (tc_name toolCall) = Some tool \<longrightarrow>
      ToolManager_executeTool getBuiltinTool mgr toolCall context tr =
        (case execute tool (tc_arguments toolCall) context (tr @ [ToolExecute (tc_name toolCall)]) of
           (Inr result, tr1) \<Rightarrow> (result, tr1)
         | (Inl err, tr1) \<Rightarrow> (failed (builtinException @ exn_message err), tr1))
      \<and> (builtinOnly tool \<longrightarrow>
           (\<exists>new. snd (ToolManager_executeTool getBuiltinTool mgr toolCall context tr)
                    = tr @ [ToolExecute (tc_name toolCall)] @ new
                  \<and> \<not> list_ex isMcpCall new)))
   \<and> (McpCallTool (tc_name toolCall)
         \<in> set (snd (ToolManager_executeTool getBuiltinTool mgr toolCall context []))
       \<and> (\<forall>t \<in> ran getBuiltinTool. builtinOnly t)
       \<longrightarrow> getBuiltinTool (tc_name toolCall) = None \<and> mcpEnabled mgr)
   \<and> (getBuiltinTool (tc_name toolCall) = None \<longrightarrow>
        snd (ToolManager_executeTool getBuiltinTool mgr toolCall context tr)
          = (if mcpEnabled mgr then tr @ [McpCallTool (tc_name toolCall)] else tr))"
proof (intro conjI impI)
  assume b: "getBuiltinTool (tc_name toolCall) = Some tool"
  then show "ToolManager_executeTool getBuiltinTool mgr toolCall context tr =
        (case execute tool (tc_arguments toolCall) context (tr @ [ToolExecute (tc_name toolCall)]) of
           (Inr result, tr1) \<Rightarrow> (result, tr1)
         | (Inl err, tr1) \<Rightarrow> (failed (builtinException @ exn_message err), tr1))"
    by (simp add: ToolManager_executeTool_def)
next
  assume b: "getBuiltinTool (tc_name toolCall) = Some tool" and o: "builtinOnly tool"
  let ?x = "execute tool (tc_arguments toolCall) context (tr @ [ToolExecute (tc_name toolCall)])"
  from o obtain new where n: "snd ?x = (tr @ [ToolExecute (tc_name toolCall)]) @ new"
      "\<not> list_ex isMcpCall new"
    unfolding builtinOnly_def by blast
  have "snd (ToolManager_executeTool getBuiltinTool mgr toolCall context tr) = snd ?x"
    using b by (simp add: ToolManager_executeTool_def split: prod.splits sum.splits)
  then show "\<exists>new. snd (ToolManager_executeTool getBuiltinTool mgr toolCall context tr)
                    = tr @ [ToolExecute (tc_name toolCall)] @ new
                  \<and> \<not> list_ex isMcpCall new"
    using n by auto
next
  assume h: "McpCallTool (tc_name toolCall)
         \<in> set (snd (ToolManager_executeTool getBuiltinTool mgr toolCall context []))
       \<and> (\<forall>t \<in> ran getBuiltinTool. builtinOnly t)"
  show "getBuiltinTool (tc_name toolCall) = None"
  proof (rule ccontr)
    assume "getBuiltinTool (tc_name toolCall) \<noteq> None"
    then obtain tool where b: "getBuiltinTool (tc_name toolCall) = Some tool" by blast
    then have "builtinOnly tool" using h by (auto simp: ran_def)
    let ?x = "execute tool (tc_arguments toolCall) context ([] @ [ToolExecute (tc_name toolCall)])"
    from \<open>builtinOnly tool\<close> obtain new where n: "snd ?x = ([] @ [ToolExecute (tc_name toolCall)]) @ new"
      "\<not> list_ex isMcpCall new"
      unfolding builtinOnly_def by blast
    have "snd (ToolManager_executeTool getBuiltinTool mgr toolCall context []) = snd ?x"
      using b by (simp add: ToolManager_executeTool_def split: prod.splits sum.splits)
    then have "McpCallTool (tc_name toolCall) \<in> set ([ToolExecute (tc_name toolCall)] @ new)"
      using h n by simp
    then have "McpCallTool (tc_name toolCall) \<in> set new" by simp
    then have "list_ex isMcpCall new" unfolding list_ex_iff by force
    then show False using n by simp
  qed
  then show "mcpEnabled mgr" using h
    by (auto simp: ToolManager_executeTool_def split: if_splits)
next
  assume "getBuiltinTool (tc_name toolCall) = None"
  then show "snd (ToolManager_executeTool getBuiltinTool mgr toolCall context tr)
          = (if mcpEnabled mgr then tr @ [McpCallTool (tc_name toolCall)] else tr)"
    by (simp add: ToolManager_executeTool_def split: sum.splits)
qed

lemma echo_builtinOnly: "builtinOnly echoTool"
  by (simp add: builtinOnly_def echoTool_def)

text \<open>
  A capability server is connected and would answer for \<open>search_codebase\<close> too: the
  builtin tool runs, the server is not called.
\<close>

theorem builtin_wins_witness:
  "oneTool (js ''search_codebase'') = Some echoTool
   \<and> mcpEnabled remoteManager
   \<and> ToolManager_executeTool oneTool remoteManager
        \<lparr>tc_name = js ''search_codebase'', tc_arguments = [js ''q'' \<mapsto> JStr (js ''x'')]\<rparr>
        (createToolContext (plainWorld True) (plainConfig False [])) []
      = (succeeded (OtherData (JStr (js ''x''))), [ToolExecute (js ''search_codebase'')])"
proof -
  let ?tc = "\<lparr>tc_name = js ''search_codebase'', tc_arguments = [js ''q'' \<mapsto> JStr (js ''x'')]\<rparr>"
  let ?c = "createToolContext (plainWorld True) (plainConfig False [])"
  have r: "oneTool (tc_name ?tc) = Some echoTool"
    by (simp add: oneTool_def)
  have m: "mcpEnabled remoteManager" by (simp add: remoteManager_def)
  have x: "execute echoTool (tc_arguments ?tc) ?c ([] @ [ToolExecute (tc_name ?tc)])
     = (Inr (succeeded (OtherData (JStr (js ''x'')))), [ToolExecute (js ''search_codebase'')])"
    by (simp add: echoTool_def arg_def)
  have "ToolManager_executeTool oneTool remoteManager ?tc ?c [] =
        (case execute echoTool (tc_arguments ?tc) ?c ([] @ [ToolExecute (tc_name ?tc)]) of
           (Inr result, tr1) \<Rightarrow> (result, tr1)
         | (Inl err, tr1) \<Rightarrow> (failed (builtinException @ exn_message err), tr1))"
    using builtin_wins [of oneTool ?tc echoTool remoteManager ?c "[]"] r by blast
  then have "ToolManager_executeTool oneTool remoteManager ?tc ?c []
      = (succeeded (OtherData (JStr (js ''x''))), [ToolExecute (js ''search_codebase'')])"
    unfolding x by simp
  then show ?thesis using r m by simp
qed

section \<open>The agent loop\<close>

lemma executeToolCall_throws:
  "executeToolCall env w ag tc tr = (Inl e, tr1) \<Longrightarrow>
     e = TypeError (includesTypeError env) \<and> availableTools (config (state ag)) = None"
  by (auto simp: executeToolCall_def split: option.splits if_splits prod.splits)

lemma executeToolCalls_throws:
  "executeToolCalls env w ag tcs tr = (Inl (e, tc), tr1) \<Longrightarrow>
     e = TypeError (includesTypeError env) \<and> availableTools (config (state ag)) = None"
proof (induction tcs arbitrary: tr tr1)
  case Nil
  then show ?case by simp
next
  case (Cons c cs)
  then show ?case
    by (auto split: prod.splits sum.splits dest: executeToolCall_throws)
qed

lemma loopPost_same_tools:
  "availableTools (config (state ag1)) = availableTools (config (state ag2)) \<Longrightarrow>
     loopPost env ag1 cap k fr log res log' = loopPost env ag2 cap k fr log res log'"
  unfolding loopPost_def by (simp only:)

lemma run_loop_post:
  "run_loop env w cap k fr ag log tr = (res, ag', log', tr') \<Longrightarrow> loopPost env ag cap k fr log res log'"
proof (induction "cap - k" arbitrary: k fr ag log tr)
  case 0
  then have "\<not> k < cap" by simp
  then have "res = Inr (fr, k) \<and> log' = log"
    using "0.prems" by (simp add: run_loop.simps[of env w cap k])
  then show ?case using \<open>\<not> k < cap\<close> by (simp add: loopPost_def)
next
  case (Suc n)
  then have lt: "k < cap" by simp
  let ?msgs = "buildMessagesWithContext ag"
  let ?answer = "llm_call env log tr ?msgs"
  let ?log1 = "log @ [(?msgs, ?answer)]"
  show ?case
  proof (cases ?answer)
    case (Inl err)
    then have "res = Inl err \<and> log' = ?log1"
      using Suc.prems lt by (auto simp add: run_loop.simps[of env w cap k] Let_def)
    then show ?thesis using lt Inl
      unfolding loopPost_def by (intro exI[of _ "[(?msgs, ?answer)]"]) simp
  next
    case (Inr r)
    let ?ag1 = "addMessage ag (plainMessage Assistant (stringifyResponse env r))"
    show ?thesis
    proof (cases "noToolCalls r")
      case True
      then have "res = Inr (response r, k + 1) \<and> log' = ?log1"
        using Suc.prems lt Inr by (auto simp add: run_loop.simps[of env w cap k] Let_def)
      then show ?thesis using lt Inr True
        unfolding loopPost_def by (intro exI[of _ "[(?msgs, ?answer)]"]) simp
    next
      case False
      let ?calls = "orEmpty (llm_tool_calls r)"
      have ne: "length ?calls \<noteq> 0"
        using False by (simp add: noToolCalls_def orEmpty_def split: option.splits)
      obtain x tr1 where x: "executeToolCalls env w ?ag1 ?calls tr = (x, tr1)"
        by (cases "executeToolCalls env w ?ag1 ?calls tr")
      show ?thesis
      proof (cases x)
        case (Inl et)
        obtain e tc where et: "et = (e, tc)" by (cases et)
        have "res = Inl e \<and> log' = ?log1"
          using Suc.prems lt Inr False x Inl et
          by (auto simp add: run_loop.simps[of env w cap k] Let_def)
        moreover have "e = TypeError (includesTypeError env)
            \<and> availableTools (config (state ag)) = None"
          using executeToolCalls_throws[of env w ?ag1 ?calls tr e tc tr1] x Inl et
          by (simp add: addMessage_def)
        ultimately show ?thesis using lt False \<open>?answer = Inr r\<close>
          unfolding loopPost_def by (intro exI[of _ "[(?msgs, ?answer)]"]) simp
      next
        case (Inr results)
        let ?ag2 = "addMessage (setCurrentToolCall ?ag1 None)
                      ((plainMessage Tool (toolResultContent env results))
                         \<lparr>name := Some (js ''tool_results'')\<rparr>)"
        have rec: "run_loop env w cap (k + 1) (response r) ?ag2 ?log1 tr1 = (res, ag', log', tr')"
          using Suc.prems lt \<open>?answer = Inr r\<close> False x Inr ne
          by (auto simp add: run_loop.simps[of env w cap k] Let_def)
        have "n = cap - (k + 1)" using Suc.hyps(2) by simp
        then have "loopPost env ?ag2 cap (k + 1) (response r) ?log1 res log'"
          using Suc.hyps(1) rec by blast
        moreover have "availableTools (config (state ?ag2)) = availableTools (config (state ag))"
          by (simp add: addMessage_def setCurrentToolCall_def)
        ultimately have "loopPost env ag cap (k + 1) (response r) ?log1 res log'"
          using loopPost_same_tools by blast
        then obtain new where new: "log' = ?log1 @ new" "length new \<le> cap - (k + 1)"
          "case res of
             Inl e \<Rightarrow>
               new \<noteq> [] \<and>
               (snd (last new) = Inl e
                \<or> (e = TypeError (includesTypeError env)
                    \<and> availableTools (config (state ag)) = None
                    \<and> (\<exists>r. snd (last new) = Inr r \<and> \<not> noToolCalls r)))
           | Inr (txt, k') \<Rightarrow>
               k' = (k + 1) + length new \<and>
               (if new = [] then txt = response r \<and> cap \<le> k + 1
                else \<exists>r. snd (last new) = Inr r \<and> txt = response r
                       \<and> (noToolCalls r \<or> k' = cap))"
          unfolding loopPost_def by auto
        let ?new = "(?msgs, ?answer) # new"
        have a: "log' = log @ ?new" using new(1) by simp
        have b: "length ?new \<le> cap - k" using new(2) lt by simp
        have c: "case res of
             Inl e \<Rightarrow>
               ?new \<noteq> [] \<and>
               (snd (last ?new) = Inl e
                \<or> (e = TypeError (includesTypeError env)
                    \<and> availableTools (config (state ag)) = None
                    \<and> (\<exists>r. snd (last ?new) = Inr r \<and> \<not> noToolCalls r)))
           | Inr (txt, k') \<Rightarrow>
               k' = k + length ?new \<and>
               (if ?new = [] then txt = fr \<and> cap \<le> k
                else \<exists>r. snd (last ?new) = Inr r \<and> txt = response r
                       \<and> (noToolCalls r \<or> k' = cap))"
        proof (cases res)
          case (Inl e)
          then show ?thesis using new(3) by auto
        next
          case (Inr tk)
          obtain t1 k1 where tk: "tk = (t1, k1)" by (cases tk)
          show ?thesis
          proof (cases "new = []")
            case True
            then show ?thesis using new(3) Inr tk lt \<open>?answer = Inr r\<close> by auto
          next
            case False
            then show ?thesis using new(3) Inr tk by auto
          qed
        qed
        show ?thesis unfolding loopPost_def using a b c by blast
      qed
    qed
  qed
qed

lemma effectiveMaxLoops_start [simp]:
  "effectiveMaxLoops (addMessage (setRunning ag b) m) = effectiveMaxLoops ag"
  by (simp add: effectiveMaxLoops_def addMessage_def setRunning_def split: option.splits)

lemma run_log:
  assumes "1 \<le> effectiveMaxLoops ag"
    and "run env w ag userMessage log tr = (res, ag', log', tr')"
  shows "\<exists>new. log' = log @ new \<and> 1 \<le> length new \<and> length new \<le> effectiveMaxLoops ag
        \<and> (case res of
              Inr txt \<Rightarrow> \<exists>r. snd (last new) = Inr r \<and> txt = response r
                          \<and> (noToolCalls r \<or> length new = effectiveMaxLoops ag)
            | Inl e \<Rightarrow>
                snd (last new) = Inl e
                \<or> (e = TypeError (includesTypeError env)
                    \<and> availableTools (config (state ag)) = None
                    \<and> (\<exists>r. snd (last new) = Inr r \<and> \<not> noToolCalls r)))
        \<and> isRunning (state ag') = False"
proof -
  let ?ag0 = "addMessage (setRunning ag True) (plainMessage User userMessage)"
  let ?cap = "effectiveMaxLoops ag"
  obtain lres ag1 log1 tr1 where
    l: "run_loop env w ?cap 0 (Some []) ?ag0 log tr = (lres, ag1, log1, tr1)"
    by (cases "run_loop env w ?cap 0 (Some []) ?ag0 log tr") auto
  then have "loopPost env ?ag0 ?cap 0 (Some []) log lres log1" by (rule run_loop_post)
  moreover have "availableTools (config (state ?ag0)) = availableTools (config (state ag))"
    by (simp add: addMessage_def setRunning_def)
  ultimately have "loopPost env ag ?cap 0 (Some []) log lres log1"
    using loopPost_same_tools by blast
  then obtain new where new: "log1 = log @ new" "length new \<le> ?cap"
    "case lres of
       Inl e \<Rightarrow>
         new \<noteq> [] \<and>
         (snd (last new) = Inl e
          \<or> (e = TypeError (includesTypeError env)
              \<and> availableTools (config (state ag)) = None
              \<and> (\<exists>r. snd (last new) = Inr r \<and> \<not> noToolCalls r)))
     | Inr (txt, k') \<Rightarrow>
         k' = 0 + length new \<and>
         (if new = [] then txt = Some [] \<and> ?cap \<le> 0
          else \<exists>r. snd (last new) = Inr r \<and> txt = response r \<and> (noToolCalls r \<or> k' = ?cap))"
    unfolding loopPost_def by auto
  have ne: "new \<noteq> []" using new(3) assms(1)
    by (cases lres) (auto split: if_splits)
  have "run env w ag userMessage log tr =
      (case lres of
         Inl err \<Rightarrow> (Inl err, setRunning ag1 False, log1, tr1)
       | Inr (finalResponse, loopCount) \<Rightarrow>
           (Inr finalResponse, setRunning ag1 False, log1,
            if loopCount \<ge> ?cap then tr1 @ [LoopLimitWarning ?cap] else tr1))"
    using l by (simp add: run_def Let_def split: sum.splits prod.splits)
  then have r: "log' = log1 \<and> ag' = setRunning ag1 False
      \<and> res = (case lres of Inl e \<Rightarrow> Inl e | Inr (txt, k') \<Rightarrow> Inr txt)"
    using assms(2) by (auto split: sum.splits prod.splits)
  have ir: "isRunning (state ag') = False"
    using r by (simp add: setRunning_def)
  have c: "case res of
              Inr txt \<Rightarrow> \<exists>r. snd (last new) = Inr r \<and> txt = response r
                          \<and> (noToolCalls r \<or> length new = ?cap)
            | Inl e \<Rightarrow>
                snd (last new) = Inl e
                \<or> (e = TypeError (includesTypeError env)
                    \<and> availableTools (config (state ag)) = None
                    \<and> (\<exists>r. snd (last new) = Inr r \<and> \<not> noToolCalls r))"
    using new(3) ne r by (cases lres) auto
  have "1 \<le> length new" using ne by (cases new) auto
  then show ?thesis using new(1,2) r c ir by blast
qed









lemma executeToolCall_ok:
  "availableTools (config (state ag)) \<noteq> None \<Longrightarrow>
     \<exists>r tr1. executeToolCall env w ag tc tr = (Inr r, tr1)"
  by (auto simp: executeToolCall_def split: option.splits prod.splits)

lemma executeToolCalls_ok:
  "availableTools (config (state ag)) \<noteq> None \<Longrightarrow>
     \<exists>rs tr1. executeToolCalls env w ag tcs tr = (Inr rs, tr1)"
proof (induction tcs arbitrary: tr)
  case Nil
  then show ?case by simp
next
  case (Cons c cs)
  obtain r tr1 where a: "executeToolCall env w ag c tr = (Inr r, tr1)"
    using executeToolCall_ok[OF Cons.prems] by blast
  obtain rs tr2 where b: "executeToolCalls env w ag cs tr1 = (Inr rs, tr2)"
    using Cons.IH[OF Cons.prems] by blast
  show ?case using a b by simp
qed

lemma run_loop_full:
  assumes always: "\<forall>l t ms. \<exists>r. llm_call env l t ms = Inr r \<and> \<not> noToolCalls r"
  shows "availableTools (config (state ag)) \<noteq> None \<Longrightarrow>
         run_loop env w cap k fr ag log tr = (res, ag', log', tr') \<Longrightarrow>
         length log' = length log + (cap - k)"
proof (induction "cap - k" arbitrary: k fr ag log tr)
  case 0
  then have "\<not> k < cap" by simp
  then have "log' = log"
    using "0.prems" by (auto simp add: run_loop.simps[of env w cap k])
  then show ?case using \<open>\<not> k < cap\<close> by simp
next
  case (Suc n)
  then have lt: "k < cap" by simp
  let ?msgs = "buildMessagesWithContext ag"
  let ?log1 = "log @ [(?msgs, llm_call env log tr ?msgs)]"
  obtain r where r: "llm_call env log tr ?msgs = Inr r" "\<not> noToolCalls r"
    using always by blast
  let ?ag1 = "addMessage ag (plainMessage Assistant (stringifyResponse env r))"
  let ?calls = "orEmpty (llm_tool_calls r)"
  have ne: "length ?calls \<noteq> 0"
    using r(2) by (simp add: noToolCalls_def orEmpty_def split: option.splits)
  have av1: "availableTools (config (state ?ag1)) \<noteq> None"
    using Suc.prems(1) by (simp add: addMessage_def)
  obtain rs tr1 where x: "executeToolCalls env w ?ag1 ?calls tr = (Inr rs, tr1)"
    using executeToolCalls_ok[OF av1] by blast
  let ?ag2 = "addMessage (setCurrentToolCall ?ag1 None)
                ((plainMessage Tool (toolResultContent env rs))
                   \<lparr>name := Some (js ''tool_results'')\<rparr>)"
  have av2: "availableTools (config (state ?ag2)) \<noteq> None"
    using Suc.prems(1) by (simp add: addMessage_def setCurrentToolCall_def)
  have rec: "run_loop env w cap (k + 1) (response r) ?ag2 ?log1 tr1 = (res, ag', log', tr')"
    using Suc.prems(2) lt r x ne
    by (auto simp add: run_loop.simps[of env w cap k] Let_def)
  have "n = cap - (k + 1)" using Suc.hyps(2) by simp
  then have "length log' = length ?log1 + (cap - (k + 1))"
    using Suc.hyps(1) av2 rec by blast
  then show ?case using lt by simp
qed

lemma createAppConfig_cap: "maxToolLoops (createAppConfig wd pc oa od) = 8"
  by (simp add: createAppConfig_def)

text \<open>
  C10. An agent whose configuration says \<open>maxLoops: 0\<close>, under an application
  configuration made by \<open>createAppConfig\<close>, runs with the cap 8: \<open>0 || 8\<close> is 8. One
  call of \<open>run\<close> then makes at least one call of the LLM client and at most eight, and
  exactly eight when every answer asks for a tool and the agent has a tool list.
\<close>

theorem zero_maxLoops_means_default_cap:
  assumes "maxLoops (config (state ag)) = Some 0"
    and "appConfig ag = createAppConfig wd pc oa od"
  shows "effectiveMaxLoops ag = 8
    \<and> (case run env w ag userMessage log tr of
          (res, ag', log', tr') \<Rightarrow>
            \<exists>new. log' = log @ new \<and> 1 \<le> length new \<and> length new \<le> 8
              \<and> ((\<forall>l t ms. \<exists>r. llm_call env l t ms = Inr r \<and> \<not> noToolCalls r)
                    \<and> availableTools (config (state ag)) \<noteq> None
                  \<longrightarrow> length new = 8))"
proof -
  have cap: "effectiveMaxLoops ag = 8"
    using assms by (simp add: effectiveMaxLoops_def createAppConfig_cap)
  then have h: "1 \<le> effectiveMaxLoops ag" by simp
  obtain res ag' log' tr' where r: "run env w ag userMessage log tr = (res, ag', log', tr')"
    by (cases "run env w ag userMessage log tr") auto
  obtain new where new: "log' = log @ new" "1 \<le> length new" "length new \<le> 8"
    using run_log[OF h r] cap by auto
  have full: "length new = 8"
    if always: "\<forall>l t ms. \<exists>r. llm_call env l t ms = Inr r \<and> \<not> noToolCalls r"
      and av: "availableTools (config (state ag)) \<noteq> None"
  proof -
    let ?ag0 = "addMessage (setRunning ag True) (plainMessage User userMessage)"
    obtain lres ag1 log1 tr1 where l: "run_loop env w 8 0 (Some []) ?ag0 log tr = (lres, ag1, log1, tr1)"
      by (cases "run_loop env w 8 0 (Some []) ?ag0 log tr") auto
    have av0: "availableTools (config (state ?ag0)) \<noteq> None"
      using av by (simp add: addMessage_def setRunning_def)
    have "length log1 = length log + (8 - 0)"
      using run_loop_full[OF always av0 l] .
    moreover have "log' = log1"
      using r l cap by (auto simp: run_def Let_def split: sum.splits prod.splits)
    ultimately have "length (log @ new) = length log + 8"
      using new(1) by simp
    then show ?thesis by simp
  qed
  show ?thesis unfolding r using cap new full by auto
qed

text \<open>
  The main agent with \<open>maxLoops: 0\<close> and an LLM that always asks for a tool: eight
  calls.
\<close>

theorem zero_maxLoops_means_default_cap_witness:
  "maxLoops (config (state zeroCapAgent)) = Some 0
   \<and> effectiveMaxLoops zeroCapAgent = 8
   \<and> length (fst (snd (snd (run busyEnv (plainWorld True) zeroCapAgent (js ''go'') [] [])))) = 8"
proof -
  have z: "maxLoops (config (state zeroCapAgent)) = Some 0"
    by (simp add: zeroCapAgent_def newAgent_def)
  have a: "appConfig zeroCapAgent
      = createAppConfig (js ''/home/u'') (DEFAULT_PROJECT_CONFIG\<lparr>allow_commands := Some []\<rparr>)
          (Some False) None"
    by (simp add: zeroCapAgent_def newAgent_def plainConfig_def)
  have busy: "\<forall>l t ms. \<exists>r. llm_call busyEnv l t ms = Inr r \<and> \<not> noToolCalls r"
    by (simp add: busyEnv_def baseEnv_def noToolCalls_def)
  have av: "availableTools (config (state zeroCapAgent)) \<noteq> None"
    by (simp add: zeroCapAgent_def newAgent_def getAgentConfig_def AGENT_PRESETS_def)
  obtain res ag' log' tr' where
    r: "run busyEnv (plainWorld True) zeroCapAgent (js ''go'') [] [] = (res, ag', log', tr')"
    by (cases "run busyEnv (plainWorld True) zeroCapAgent (js ''go'') [] []") auto
  show ?thesis
    using zero_maxLoops_means_default_cap[OF z a, where env = busyEnv and w = "plainWorld True"
        and userMessage = "js ''go''" and log = "[]" and tr = "[]"] busy av z
    unfolding r by auto
qed

section \<open>Sub-agents\<close>








section \<open>System payloads of the provider adapters\<close>

lemma kimi_convert_role: "c_role (kimi_convert st m) = role m"
  by (cases "role m") (simp_all add: kimi_convert_def)

lemma openai_convert_role: "c_role (openai_convert st m) = role m"
  by (cases "role m") (simp_all add: openai_convert_def)

lemma ollama_convert_role: "o_role (ollama_convert m) = role m"
  by (cases "role m") (simp_all add: ollama_convert_def)

lemma kimi_convert_system: "role m = System \<Longrightarrow> c_content (kimi_convert st m) = Some (content m)"
  by (simp add: kimi_convert_def)

lemma openai_convert_system: "role m = System \<Longrightarrow> c_content (openai_convert st m) = Some (content m)"
  by (simp add: openai_convert_def)

lemma ollama_convert_system: "role m = System \<Longrightarrow> o_content (ollama_convert m) = content m"
  by (simp add: ollama_convert_def)

lemma kimi_payloads:
  "map c_content (filter (\<lambda>m. c_role m = System) (map (kimi_convert st) msgs))
     = map (\<lambda>m. Some (content m)) (filter (\<lambda>m. role m = System) msgs)"
  by (induction msgs) (simp_all add: kimi_convert_role kimi_convert_system)

lemma openai_payloads:
  "map c_content (filter (\<lambda>m. c_role m = System) (map (openai_convert st) msgs))
     = map (\<lambda>m. Some (content m)) (filter (\<lambda>m. role m = System) msgs)"
  by (induction msgs) (simp_all add: openai_convert_role openai_convert_system)

lemma ollama_payloads:
  "map o_content (filter (\<lambda>m. o_role m = System) (map ollama_convert msgs))
     = map content (filter (\<lambda>m. role m = System) msgs)"
  by (induction msgs) (simp_all add: ollama_convert_role ollama_convert_system)

lemma anthropic_step_no_system:
  assumes "\<forall>m \<in> set result. a_role m \<noteq> System"
  shows "\<forall>m \<in> set (anthropic_step result msg). a_role m \<noteq> System"
proof (cases "role msg")
  case System
  then show ?thesis using assms by (simp add: anthropic_step_def)
next
  case User
  then show ?thesis using assms by (simp add: anthropic_step_def)
next
  case Assistant
  then show ?thesis using assms by (simp add: anthropic_step_def Let_def)
next
  case Tool
  let ?blk = "ToolResultBlock (orEmptyString (tool_call_id msg)) (content msg)"
  show ?thesis
  proof (cases "length result > 0 \<and> a_role (last result) = User")
    case False
    then have "anthropic_step result msg = result @ [\<lparr>a_role = User, a_content = Blocks [?blk]\<rparr>]"
      using Tool by (auto simp add: anthropic_step_def Let_def)
    then show ?thesis using assms by simp
  next
    case True
    then obtain c where "anthropic_step result msg = butlast result @ [(last result)\<lparr>a_content := c\<rparr>]"
      using Tool by (cases "a_content (last result)") (simp_all add: anthropic_step_def Let_def)
    moreover have "\<forall>m \<in> set (butlast result). a_role m \<noteq> System"
      using assms by (meson in_set_butlastD)
    ultimately show ?thesis using True by simp
  qed
qed

lemma anthropic_foldl_no_system:
  "\<forall>m \<in> set result. a_role m \<noteq> System \<Longrightarrow>
     \<forall>m \<in> set (foldl anthropic_step result msgs). a_role m \<noteq> System"
proof (induction msgs arbitrary: result)
  case Nil
  then show ?case by simp
next
  case (Cons msg msgs)
  have "\<forall>m \<in> set (anthropic_step result msg). a_role m \<noteq> System"
    using Cons.prems by (rule anthropic_step_no_system)
  then show ?case using Cons.IH by simp
qed

lemma anthropic_no_system: "filter (\<lambda>m. a_role m = System) (anthropic_convertMessages msgs) = []"
proof -
  have "\<forall>m \<in> set (foldl anthropic_step [] msgs). a_role m \<noteq> System"
    by (rule anthropic_foldl_no_system) simp
  then have "\<forall>m \<in> set (anthropic_convertMessages msgs). a_role m \<noteq> System"
    by (auto simp: anthropic_convertMessages_def Let_def)
  then show ?thesis by (simp add: filter_empty_conv)
qed

text \<open>
  C8, as stated, fails for the Kimi adapter. On the messages of a first turn with a
  project context (a system message, then the user message) \<open>convertMessages\<close> sends
  two messages with the role \<open>system\<close>: the base instructions, then the context.
\<close>

theorem kimi_sends_two_system_messages:
  "kimi_convertMessages (js ''base'') stringifyEmpty firstTurn =
     [\<lparr>c_role = System, c_content = Some (js ''base''), c_name = None, c_tool_call_id = None, c_tool_calls = None\<rparr>,
      \<lparr>c_role = System, c_content = Some (js ''ctx''), c_name = None, c_tool_call_id = None, c_tool_calls = None\<rparr>,
      \<lparr>c_role = User, c_content = Some (js ''hi''), c_name = None, c_tool_call_id = None, c_tool_calls = None\<rparr>]
   \<and> chatSystemPayloads (kimi_convertMessages (js ''base'') stringifyEmpty firstTurn)
       = [Some (js ''base''), Some (js ''ctx'')]
   \<and> length (chatSystemPayloads (kimi_convertMessages (js ''base'') stringifyEmpty firstTurn)) \<noteq> 1"
  by (simp add: kimi_convertMessages_def kimi_convert_def firstTurn_def plainMessage_def
      chatSystemPayloads_def)

lemma kimi_convert_pair:
  "(c_role (kimi_convert st m), c_content (kimi_convert st m))
     = (role m, if role m = Assistant then orNull (content m) else Some (content m))"
  by (cases "role m") (simp_all add: kimi_convert_def)

lemma openai_convert_pair:
  "(c_role (openai_convert st m), c_content (openai_convert st m))
     = (role m, if role m = Assistant then orNull (content m) else Some (content m))"
  by (cases "role m") (simp_all add: openai_convert_def)

lemma ollama_convert_pair:
  "(o_role (ollama_convert m), o_content (ollama_convert m)) = (role m, content m)"
  by (cases "role m") (simp_all add: ollama_convert_def)

text \<open>
  C8, amended. The wire list of the Kimi, OpenAI and Ollama adapters begins with a
  system message that holds the base instructions and nothing else; after it comes
  one wire message for every canonical message, in order and with the same role, a
  canonical system message as a system message with its own content. So the system
  payloads are the base instructions and then the contents of the canonical system
  messages, each on its own: one more than the canonical list has system messages.
  The Anthropic adapter sends no wire message with the role \<open>system\<close> and exactly one
  system payload, the \<open>system\<close> parameter: the base instructions, followed by the
  contents of the canonical system messages, a blank line before each, when there are
  any.
\<close>

theorem system_payloads_per_adapter:
  "hd (kimi_convertMessages sp st msgs)
     = \<lparr>c_role = System, c_content = Some sp, c_name = None, c_tool_call_id = None,
        c_tool_calls = None\<rparr>
   \<and> map (\<lambda>m. (c_role m, c_content m)) (kimi_convertMessages sp st msgs)
     = (System, Some sp)
       # map (\<lambda>m. (role m, if role m = Assistant then orNull (content m) else Some (content m)))
           msgs
   \<and> chatSystemPayloads (kimi_convertMessages sp st msgs)
     = Some sp # map (\<lambda>m. Some (content m)) (canonicalSystemMessages msgs)
   \<and> hd (openai_convertMessages sp st msgs)
     = \<lparr>c_role = System, c_content = Some sp, c_name = None, c_tool_call_id = None,
        c_tool_calls = None\<rparr>
   \<and> map (\<lambda>m. (c_role m, c_content m)) (openai_convertMessages sp st msgs)
     = (System, Some sp)
       # map (\<lambda>m. (role m, if role m = Assistant then orNull (content m) else Some (content m)))
           msgs
   \<and> chatSystemPayloads (openai_convertMessages sp st msgs)
     = Some sp # map (\<lambda>m. Some (content m)) (canonicalSystemMessages msgs)
   \<and> hd (ollama_convertMessages sp msgs)
     = \<lparr>o_role = System, o_content = sp, o_tool_calls = None\<rparr>
   \<and> map (\<lambda>m. (o_role m, o_content m)) (ollama_convertMessages sp msgs)
     = (System, sp) # map (\<lambda>m. (role m, content m)) msgs
   \<and> ollamaSystemPayloads (ollama_convertMessages sp msgs)
     = sp # map content (canonicalSystemMessages msgs)
   \<and> filter (\<lambda>m. a_role m = System) (ar_messages (callAnthropic_request sp msgs)) = []
   \<and> ar_system (callAnthropic_request sp msgs)
     = (if canonicalSystemMessages msgs = [] then sp
        else sp @ [10, 10] @ joinWith [10, 10] (map content (canonicalSystemMessages msgs)))
   \<and> anthropicSystemPayloads (callAnthropic_request sp msgs)
     = [if canonicalSystemMessages msgs = [] then sp
        else sp @ [10, 10] @ joinWith [10, 10] (map content (canonicalSystemMessages msgs))]"
proof (intro conjI)
  show "hd (kimi_convertMessages sp st msgs)
     = \<lparr>c_role = System, c_content = Some sp, c_name = None, c_tool_call_id = None,
        c_tool_calls = None\<rparr>"
    by (simp add: kimi_convertMessages_def)
next
  show "map (\<lambda>m. (c_role m, c_content m)) (kimi_convertMessages sp st msgs)
     = (System, Some sp)
       # map (\<lambda>m. (role m, if role m = Assistant then orNull (content m) else Some (content m)))
           msgs"
    by (simp add: kimi_convertMessages_def comp_def kimi_convert_pair)
next
  show "chatSystemPayloads (kimi_convertMessages sp st msgs)
     = Some sp # map (\<lambda>m. Some (content m)) (canonicalSystemMessages msgs)"
    by (simp add: chatSystemPayloads_def kimi_convertMessages_def canonicalSystemMessages_def
        kimi_payloads)
next
  show "hd (openai_convertMessages sp st msgs)
     = \<lparr>c_role = System, c_content = Some sp, c_name = None, c_tool_call_id = None,
        c_tool_calls = None\<rparr>"
    by (simp add: openai_convertMessages_def)
next
  show "map (\<lambda>m. (c_role m, c_content m)) (openai_convertMessages sp st msgs)
     = (System, Some sp)
       # map (\<lambda>m. (role m, if role m = Assistant then orNull (content m) else Some (content m)))
           msgs"
    by (simp add: openai_convertMessages_def comp_def openai_convert_pair)
next
  show "chatSystemPayloads (openai_convertMessages sp st msgs)
     = Some sp # map (\<lambda>m. Some (content m)) (canonicalSystemMessages msgs)"
    by (simp add: chatSystemPayloads_def openai_convertMessages_def canonicalSystemMessages_def
        openai_payloads)
next
  show "hd (ollama_convertMessages sp msgs)
     = \<lparr>o_role = System, o_content = sp, o_tool_calls = None\<rparr>"
    by (simp add: ollama_convertMessages_def)
next
  show "map (\<lambda>m. (o_role m, o_content m)) (ollama_convertMessages sp msgs)
     = (System, sp) # map (\<lambda>m. (role m, content m)) msgs"
    by (simp add: ollama_convertMessages_def comp_def ollama_convert_pair)
next
  show "ollamaSystemPayloads (ollama_convertMessages sp msgs)
     = sp # map content (canonicalSystemMessages msgs)"
    by (simp add: ollamaSystemPayloads_def ollama_convertMessages_def canonicalSystemMessages_def
        ollama_payloads)
next
  show "filter (\<lambda>m. a_role m = System) (ar_messages (callAnthropic_request sp msgs)) = []"
    by (simp add: callAnthropic_request_def Let_def anthropic_no_system)
next
  show "ar_system (callAnthropic_request sp msgs)
     = (if canonicalSystemMessages msgs = [] then sp
        else sp @ [10, 10] @ joinWith [10, 10] (map content (canonicalSystemMessages msgs)))"
    by (simp add: callAnthropic_request_def Let_def canonicalSystemMessages_def)
next
  show "anthropicSystemPayloads (callAnthropic_request sp msgs)
     = [if canonicalSystemMessages msgs = [] then sp
        else sp @ [10, 10] @ joinWith [10, 10] (map content (canonicalSystemMessages msgs))]"
    by (simp add: anthropicSystemPayloads_def callAnthropic_request_def Let_def
        canonicalSystemMessages_def anthropic_no_system)
qed

text \<open>
  The first turn with a project context through the Anthropic and OpenAI adapters,
  and the user message alone through the Ollama adapter.
\<close>

theorem system_payloads_per_adapter_witness:
  "anthropicSystemPayloads (callAnthropic_request (js ''base'') firstTurn)
     = [js ''base'' @ [10, 10] @ js ''ctx'']
   \<and> map (\<lambda>m. (c_role m, c_content m))
       (openai_convertMessages (js ''base'') stringifyEmpty firstTurn)
     = [(System, Some (js ''base'')), (System, Some (js ''ctx'')), (User, Some (js ''hi''))]
   \<and> chatSystemPayloads (openai_convertMessages (js ''base'') stringifyEmpty firstTurn)
     = [Some (js ''base''), Some (js ''ctx'')]
   \<and> ollamaSystemPayloads (ollama_convertMessages (js ''base'') (tl firstTurn)) = [js ''base'']"
proof -
  have c: "canonicalSystemMessages firstTurn = [plainMessage System (js ''ctx'')]"
    by (simp add: canonicalSystemMessages_def firstTurn_def plainMessage_def)
  have t: "canonicalSystemMessages (tl firstTurn) = []"
    by (simp add: canonicalSystemMessages_def firstTurn_def plainMessage_def)
  have n: "content (plainMessage System (js ''ctx'')) = js ''ctx''"
    by (simp add: plainMessage_def)
  have f: "map (\<lambda>m. (role m, if role m = Assistant then orNull (content m) else Some (content m)))
             firstTurn
       = [(System, Some (js ''ctx'')), (User, Some (js ''hi''))]"
    by (simp add: firstTurn_def plainMessage_def)
  show ?thesis
    using system_payloads_per_adapter[of "js ''base''" stringifyEmpty firstTurn]
      system_payloads_per_adapter[of "js ''base''" stringifyEmpty "tl firstTurn"]
    unfolding c t f by (simp add: n)
qed

end
